theory Spec2Isabelle
  imports Main "HOL-Library.Sublist"
begin

section \<open>Strings and dictionaries of the Python source\<close>

text \<open>
  The stubs of \<^verbatim>\<open>vcr/stubs/__init__.py\<close> work on header names and URIs. A Python
  \<^verbatim>\<open>str\<close> or \<^verbatim>\<open>bytes\<close> value is a \<^typ>\<open>string\<close>; header names are HTTP
  tokens, so \<^verbatim>\<open>str.lower\<close> and \<^verbatim>\<open>str.upper\<close> are the ASCII case maps.
  A name of the source that starts with an underscore is written with the prefix
  \<open>u_\<close> (\<^verbatim>\<open>_uri\<close> is \<open>u_uri\<close>).
\<close>

definition lower_char :: "char \<Rightarrow> char" where
  "lower_char c =
     (case map_of (zip ''ABCDEFGHIJKLMNOPQRSTUVWXYZ'' ''abcdefghijklmnopqrstuvwxyz'') c of
        Some d \<Rightarrow> d
      | None \<Rightarrow> c)"

definition upper_char :: "char \<Rightarrow> char" where
  "upper_char c =
     (case map_of (zip ''abcdefghijklmnopqrstuvwxyz'' ''ABCDEFGHIJKLMNOPQRSTUVWXYZ'') c of
        Some d \<Rightarrow> d
      | None \<Rightarrow> c)"

definition lower :: "string \<Rightarrow> string" where
  "lower s = map lower_char s"

definition upper :: "string \<Rightarrow> string" where
  "upper s = map upper_char s"

text \<open>\<^verbatim>\<open>s.split(sep)\<close> for a separator of one character: the pieces between the
  occurrences of the separator, always at least one piece.\<close>

fun split :: "char \<Rightarrow> string \<Rightarrow> string list" where
  "split sep [] = [] # []"
| "split sep (c # cs) =
     (if c = sep then [] # split sep cs
      else (case split sep cs of
              [] \<Rightarrow> [c] # []
            | p # ps \<Rightarrow> (c # p) # ps))"

text \<open>The exceptions of the source. A fault of the real connection (the standard
  library's connection class) is \<open>Foreign\<close>, or \<open>AttributeError\<close> when it is one.\<close>

datatype exn =
    AttributeError
  | IndexError
  | AssertionError string
  | CannotOverwriteExistingCassetteException string
  | Foreign string

text \<open>\<^verbatim>\<open>xs[1]\<close> on a list.\<close>

definition index1 :: "'a list \<Rightarrow> exn + 'a" where
  "index1 xs = (case xs of _ # y # _ \<Rightarrow> Inr y | _ \<Rightarrow> Inl IndexError)"

text \<open>A Python \<^verbatim>\<open>dict\<close> is the list of its items in insertion order, with distinct
  keys. \<^verbatim>\<open>d[k] = v\<close> overwrites the value of a key that is present, where the key
  stands, and appends the item otherwise.\<close>

type_synonym ('k, 'v) dict = "('k \<times> 'v) list"

fun dict_set :: "('k, 'v) dict \<Rightarrow> 'k \<Rightarrow> 'v \<Rightarrow> ('k, 'v) dict" where
  "dict_set [] k v = [(k, v)]"
| "dict_set ((k', v') # d) k v =
     (if k' = k then (k', v) # d else (k', v') # dict_set d k v)"

definition dict_get :: "('k, 'v) dict \<Rightarrow> 'k \<Rightarrow> 'v option" where
  "dict_get d k = map_of d k"

fun dict_del :: "('k, 'v) dict \<Rightarrow> 'k \<Rightarrow> ('k, 'v) dict" where
  "dict_del [] k = []"
| "dict_del ((k', v') # d) k = (if k' = k then d else (k', v') # dict_del d k)"

definition dict_keys :: "('k, 'v) dict \<Rightarrow> 'k list" where
  "dict_keys d = map fst d"

type_synonym headers = "(string, string list) dict"

section \<open>Header Transform\<close>

text \<open>
  \<^verbatim>\<open>
  def transform_proxy_headers(header_list):
      filtered_headers = {}
      for key, values in header_list.items():
          if key.lower() == 'proxy-connection':
              filtered_headers[key.split('-')[1]] = values
          elif key.lower() != 'proxy-authorization':
              filtered_headers[key] = values
      return filtered_headers
  \<close>
  The loop is \<open>transform_loop\<close>, with the dictionary under construction as its
  accumulator.
\<close>

fun transform_loop :: "headers \<Rightarrow> headers \<Rightarrow> exn + headers" where
  "transform_loop filtered_headers [] = Inr filtered_headers"
| "transform_loop filtered_headers ((key, values) # items) =
     (if lower key = ''proxy-connection'' then
        (case index1 (split CHR ''-'' key) of
           Inl e \<Rightarrow> Inl e
         | Inr k \<Rightarrow> transform_loop (dict_set filtered_headers k values) items)
      else if lower key \<noteq> ''proxy-authorization'' then
        transform_loop (dict_set filtered_headers key values) items
      else transform_loop filtered_headers items)"

definition transform_proxy_headers :: "headers \<Rightarrow> exn + headers" where
  "transform_proxy_headers header_list = transform_loop [] header_list"

text \<open>What one item of the input becomes, when no other item takes its place: the
  name after the hyphen for proxy-connection, nothing for proxy-authorization, the
  item itself otherwise.\<close>

definition transform_item :: "string \<times> string list \<Rightarrow> (string \<times> string list) option" where
  "transform_item kv =
     (if lower (fst kv) = ''proxy-connection'' then Some (drop 6 (fst kv), snd kv)
      else if lower (fst kv) \<noteq> ''proxy-authorization'' then Some kv
      else None)"


section \<open>Recorded responses and the Response Synthesizer\<close>

text \<open>
  A Recorded Response is the dictionary
  \<^verbatim>\<open>{'status': {'code': .., 'message': ..}, 'headers': {..}, 'body': {'string': ..}}\<close>.
  The cassette, the caller and the synthesized response hold references to one and the
  same dictionary, so the dictionaries live in a store and are named by their address.
\<close>

record recorded_response =
  status_code :: int
  status_message :: string
  rr_headers :: headers
  body_string :: string

type_synonym addr = nat

type_synonym store = "addr \<Rightarrow> recorded_response"

text \<open>The module \<^verbatim>\<open>vcr.stubs.compat\<close> is not among the sources: its functions are the
  fields of a parameter, over the type \<open>'m\<close> of the message objects they build.\<close>

record 'm compat =
  get_httpmessage :: "string \<Rightarrow> 'm"
  get_header :: "'m \<Rightarrow> string \<Rightarrow> string option"
  get_header_items :: "'m \<Rightarrow> (string \<times> string) list"
  get_headers :: "'m \<Rightarrow> (string \<times> string list) list"

text \<open>
  \<^verbatim>\<open>
  def parse_headers(header_list):
      header_string = b""
      for key, values in transform_proxy_headers(header_list).items():
          for v in values:
              header_string += key.encode('utf-8') + b":" + v.encode('utf-8') + b"\r\n"
      return compat.get_httpmessage(header_string)
  \<close>
  \<open>header_block\<close> is the value of \<open>header_string\<close> after the two loops.
\<close>

definition CRLF :: string where
  "CRLF = [CHR 0x0D, CHR 0x0A]"

fun header_values :: "string \<Rightarrow> string list \<Rightarrow> string" where
  "header_values key [] = []"
| "header_values key (v # values) = key @ '':'' @ v @ CRLF @ header_values key values"

fun header_block :: "headers \<Rightarrow> string" where
  "header_block [] = []"
| "header_block ((key, values) # items) = header_values key values @ header_block items"

definition header_string :: "headers \<Rightarrow> exn + string" where
  "header_string header_list =
     (case transform_proxy_headers header_list of
        Inl e \<Rightarrow> Inl e
      | Inr d \<Rightarrow> Inr (header_block d))"

definition parse_headers :: "'m compat \<Rightarrow> headers \<Rightarrow> exn + 'm" where
  "parse_headers C header_list =
     (case header_string header_list of
        Inl e \<Rightarrow> Inl e
      | Inr s \<Rightarrow> Inr (get_httpmessage C s))"

text \<open>\<^verbatim>\<open>BytesIO\<close>: a buffer and a read position. \<^verbatim>\<open>read()\<close>, \<^verbatim>\<open>read(None)\<close> and
  \<^verbatim>\<open>read(n)\<close> with \<open>n < 0\<close> return everything from the position on; \<^verbatim>\<open>read(n)\<close>
  returns at most \<open>n\<close> bytes. \<^verbatim>\<open>readline\<close> stops after the next line feed.\<close>

record bytesio =
  buf :: string
  pos :: nat

definition bytesio_read :: "int option \<Rightarrow> bytesio \<Rightarrow> string \<times> bytesio" where
  "bytesio_read sz b =
     (let rest = drop (pos b) (buf b);
          n = (case sz of
                 None \<Rightarrow> length rest
               | Some k \<Rightarrow> if k < 0 then length rest else min (nat k) (length rest))
      in (take n rest, b\<lparr>pos := pos b + n\<rparr>))"

definition bytesio_readline :: "int option \<Rightarrow> bytesio \<Rightarrow> string \<times> bytesio" where
  "bytesio_readline sz b =
     (let rest = drop (pos b) (buf b);
          line = takeWhile (\<lambda>c. c \<noteq> CHR 0x0A) rest;
          full = (if length line < length rest then length line + 1 else length line);
          n = (case sz of
                 None \<Rightarrow> full
               | Some k \<Rightarrow> if k < 0 then full else min (nat k) full)
      in (take n rest, b\<lparr>pos := pos b + n\<rparr>))"

text \<open>The stub response. \<open>recorded_response\<close> is the reference to the dictionary it was
  built from; \<open>length_attr\<close> is the attribute \<^verbatim>\<open>length\<close>.\<close>

record 'm VCRHTTPResponse =
  recorded_response :: addr
  reason :: string
  status :: int
  code :: int
  version :: "string option"
  u_content :: bytesio
  u_closed :: bool
  headers :: 'm
  msg :: 'm
  length_attr :: "string option"

text \<open>
  \<^verbatim>\<open>
  def __init__(self, recorded_response):
      self.recorded_response = recorded_response
      self.reason = recorded_response['status']['message']
      self.status = self.code = recorded_response['status']['code']
      self.version = None
      self._content = BytesIO(self.recorded_response['body']['string'])
      self._closed = False
      headers = self.recorded_response['headers']
      te_key = [h for h in headers.keys() if h.upper() == 'TRANSFER-ENCODING']
      if te_key:
          del headers[te_key[0]]
      self.headers = self.msg = parse_headers(headers)
      self.length = compat.get_header(self.msg, 'content-length') or None
  \<close>
  \<open>headers\<close> is the dictionary of the record itself, so \<^verbatim>\<open>del\<close> changes the record in
  the store. \<^verbatim>\<open>x or None\<close> is \<open>None\<close> for the empty string as well.
\<close>

definition te_key :: "headers \<Rightarrow> string list" where
  "te_key hs = filter (\<lambda>h. upper h = ''TRANSFER-ENCODING'') (dict_keys hs)"

definition strip_transfer_encoding :: "headers \<Rightarrow> headers" where
  "strip_transfer_encoding hs =
     (case te_key hs of [] \<Rightarrow> hs | k # _ \<Rightarrow> dict_del hs k)"

definition or_None :: "string option \<Rightarrow> string option" where
  "or_None x = (case x of None \<Rightarrow> None | Some s \<Rightarrow> if s = [] then None else Some s)"

definition VCRHTTPResponse_init ::
  "'m compat \<Rightarrow> addr \<Rightarrow> store \<Rightarrow> (exn + 'm VCRHTTPResponse) \<times> store" where
  "VCRHTTPResponse_init C a \<sigma> =
     (let rr = \<sigma> a;
          hs = strip_transfer_encoding (rr_headers rr);
          \<sigma>' = \<sigma>(a := rr\<lparr>rr_headers := hs\<rparr>)
      in case parse_headers C hs of
           Inl e \<Rightarrow> (Inl e, \<sigma>')
         | Inr m \<Rightarrow>
             (Inr \<lparr>recorded_response = a,
                   reason = status_message rr,
                   status = status_code rr,
                   code = status_code rr,
                   version = None,
                   u_content = \<lparr>buf = body_string rr, pos = 0\<rparr>,
                   u_closed = False,
                   headers = m,
                   msg = m,
                   length_attr = or_None (get_header C m ''content-length'')\<rparr>,
              \<sigma>'))"

text \<open>The methods of the stub response. Each takes the response object and the store
  and returns its result with both: the body methods move the read position,
  \<^verbatim>\<open>close\<close> sets the flag, and the header methods parse the headers of the record the
  object refers to, as it is in the store at the time of the call.\<close>

definition closed :: "'m VCRHTTPResponse \<Rightarrow> bool" where
  "closed self = u_closed self"

definition read :: "int option \<Rightarrow> 'm VCRHTTPResponse \<Rightarrow> string \<times> 'm VCRHTTPResponse" where
  "read sz self =
     (case bytesio_read sz (u_content self) of
        (data, b) \<Rightarrow> (data, self\<lparr>u_content := b\<rparr>))"

definition readline :: "int option \<Rightarrow> 'm VCRHTTPResponse \<Rightarrow> string \<times> 'm VCRHTTPResponse" where
  "readline sz self =
     (case bytesio_readline sz (u_content self) of
        (data, b) \<Rightarrow> (data, self\<lparr>u_content := b\<rparr>))"

definition close :: "'m VCRHTTPResponse \<Rightarrow> bool \<times> 'm VCRHTTPResponse" where
  "close self = (True, self\<lparr>u_closed := True\<rparr>)"

definition getcode :: "'m VCRHTTPResponse \<Rightarrow> int" where
  "getcode self = status self"

definition isclosed :: "'m VCRHTTPResponse \<Rightarrow> bool" where
  "isclosed self = closed self"

definition info :: "'m compat \<Rightarrow> 'm VCRHTTPResponse \<Rightarrow> store \<Rightarrow> exn + 'm" where
  "info C self \<sigma> = parse_headers C (rr_headers (\<sigma> (recorded_response self)))"

definition getheaders ::
  "'m compat \<Rightarrow> 'm VCRHTTPResponse \<Rightarrow> store \<Rightarrow> exn + (string \<times> string) list" where
  "getheaders C self \<sigma> =
     (case parse_headers C (rr_headers (\<sigma> (recorded_response self))) of
        Inl e \<Rightarrow> Inl e
      | Inr message \<Rightarrow> Inr (get_header_items C message))"

fun join :: "string \<Rightarrow> string list \<Rightarrow> string" where
  "join sep [] = []"
| "join sep [x] = x"
| "join sep (x # y # ys) = x @ sep @ join sep (y # ys)"

definition getheader ::
  "'m compat \<Rightarrow> string \<Rightarrow> string option \<Rightarrow> 'm VCRHTTPResponse \<Rightarrow> store \<Rightarrow>
     exn + string option" where
  "getheader C header dflt self \<sigma> =
     (case getheaders C self \<sigma> of
        Inl e \<Rightarrow> Inl e
      | Inr items \<Rightarrow>
          (let values = map snd (filter (\<lambda>(k, v). lower k = lower header) items)
           in if values \<noteq> [] then Inr (Some (join '', '' values)) else Inr dflt))"

text \<open>The operations a caller performs on a stub response during replay, and what one
  of them does to the response object and to the store.\<close>

datatype replay_op =
    Read "int option"
  | Readline "int option"
  | Close
  | Getcode
  | Isclosed
  | Info
  | Getheaders
  | Getheader string "string option"

fun replay_step ::
  "'m compat \<Rightarrow> replay_op \<Rightarrow> 'm VCRHTTPResponse \<times> store \<Rightarrow> 'm VCRHTTPResponse \<times> store" where
  "replay_step C (Read sz) (self, \<sigma>) = (snd (read sz self), \<sigma>)"
| "replay_step C (Readline sz) (self, \<sigma>) = (snd (readline sz self), \<sigma>)"
| "replay_step C Close (self, \<sigma>) = (snd (close self), \<sigma>)"
| "replay_step C Getcode (self, \<sigma>) = (self, \<sigma>)"
| "replay_step C Isclosed (self, \<sigma>) = (self, \<sigma>)"
| "replay_step C Info (self, \<sigma>) = (self, \<sigma>)"
| "replay_step C Getheaders (self, \<sigma>) = (self, \<sigma>)"
| "replay_step C (Getheader header dflt) (self, \<sigma>) = (self, \<sigma>)"

text \<open>Reading a body to completion in pieces of at most \<open>n\<close> bytes: \<^verbatim>\<open>read(n)\<close> until
  it returns nothing.\<close>

function read_chunks :: "nat \<Rightarrow> 'm VCRHTTPResponse \<Rightarrow> string list" where
  "read_chunks n self =
     (case read (Some (int n)) self of
        (data, self') \<Rightarrow> if data = [] then [] else data # read_chunks n self')"
  by pat_completeness auto
termination
  by (relation "measure (\<lambda>(n, self). length (buf (u_content self)) - pos (u_content self))")
    (auto simp: read_def bytesio_read_def Let_def min_def split: if_splits)

declare read_chunks.simps [simp del]

text \<open>An instance of the compat functions for concrete runs: a message object is the
  header block it was built from, and it answers no lookup.\<close>

definition block_compat :: "string compat" where
  "block_compat =
     \<lparr>get_httpmessage = (\<lambda>s. s),
      get_header = (\<lambda>m name. None),
      get_header_items = (\<lambda>m. []),
      get_headers = (\<lambda>m. [])\<rparr>"

section \<open>The Connection Proxy\<close>

subsection \<open>Values, requests and the collaborators\<close>

datatype protocol = Http | Https

text \<open>The class attribute \<^verbatim>\<open>_protocol\<close> of the two subclasses, as the string it is,
  and the table \<^verbatim>\<open>{'https': 443, 'http': 80}\<close>.\<close>

fun protocol_name :: "protocol \<Rightarrow> string" where
  "protocol_name Http = ''http''"
| "protocol_name Https = ''https''"

fun default_port :: "protocol \<Rightarrow> int" where
  "default_port Https = 443"
| "default_port Http = 80"

text \<open>\<^verbatim>\<open>str(n)\<close> for an integer, as \<^verbatim>\<open>'{0}'.format(n)\<close> renders it.\<close>

definition digit :: "nat \<Rightarrow> char" where
  "digit d = ''0123456789'' ! d"

fun str_nat :: "nat \<Rightarrow> string" where
  "str_nat n = (if n < 10 then [digit n] else str_nat (n div 10) @ [digit (n mod 10)])"

declare str_nat.simps [simp del]

definition str_int :: "int \<Rightarrow> string" where
  "str_int i = (if i < 0 then CHR ''-'' # str_nat (nat (- i)) else str_nat (nat i))"

text \<open>\<^verbatim>\<open>s.replace(old, new, 1)\<close>: the leftmost occurrence of \<open>old\<close> is replaced.\<close>

fun replace_first :: "string \<Rightarrow> string \<Rightarrow> string \<Rightarrow> string" where
  "replace_first old new [] = (if old = [] then new else [])"
| "replace_first old new (c # s) =
     (if prefix old (c # s) then new @ drop (length old) (c # s)
      else c # replace_first old new s)"

text \<open>
  \<^verbatim>\<open>
  proxied_protocols = set()
  for proxy_key in ('http_proxy', 'https_proxy'):
      if os.environ.get(proxy_key) or os.environ.get(proxy_key.upper()):
          proxied_protocols.add(proxy_key.split('_')[0])
  \<close>
\<close>

definition environ_truthy :: "(string, string) dict \<Rightarrow> string \<Rightarrow> bool" where
  "environ_truthy environ k = (case dict_get environ k of None \<Rightarrow> False | Some v \<Rightarrow> v \<noteq> [])"

definition proxied_protocols :: "(string, string) dict \<Rightarrow> string list" where
  "proxied_protocols environ =
     concat (map (\<lambda>proxy_key.
        if environ_truthy environ proxy_key \<or> environ_truthy environ (upper proxy_key)
        then (case split CHR ''_'' proxy_key of [] \<Rightarrow> [] | p # _ \<Rightarrow> [p])
        else [])
      [''http_proxy'', ''https_proxy''])"

text \<open>Modelled from the spec: the class \<^verbatim>\<open>vcr.request.Request\<close> is not among the
  sources. A Request has a method, an absolute URI, a body (raw bytes, or absent) and
  a header mapping from a name to the ordered list of its values, with names
  case-insensitive for lookup and case-preserving for storage; its constructor stores
  what it is given. The field \<open>req_method\<close> is the attribute \<^verbatim>\<open>method\<close>.\<close>

record request =
  req_method :: string
  uri :: string
  body :: "string option"
  headers :: headers

text \<open>Modelled from the spec: the header mapping of a Request, which belongs to the class
  that is not among the sources. Names are case-insensitive for lookup: \<open>header_map_get\<close>
  finds the entry whose name is the given one in some letter case. Names are
  case-preserving for storage: \<open>header_map_set\<close> on a name that the mapping has, in whatever
  letter case, gives that entry the new value list and leaves its stored name and its
  place as they are; a name that the mapping does not have is appended as it is
  written. \<open>header_map_update\<close> is the mapping's \<^verbatim>\<open>update(other)\<close>: every item of \<open>other\<close>,
  in order, is stored so.\<close>

fun header_map_get :: "headers \<Rightarrow> string \<Rightarrow> string list option" where
  "header_map_get [] k = None"
| "header_map_get ((k', v') # d) k = (if lower k' = lower k then Some v' else header_map_get d k)"

fun header_map_set :: "headers \<Rightarrow> string \<Rightarrow> string list \<Rightarrow> headers" where
  "header_map_set [] k v = [(k, v)]"
| "header_map_set ((k', v') # d) k v =
     (if lower k' = lower k then (k', v) # d else (k', v') # header_map_set d k v)"


text \<open>The values an attribute of the connection can be assigned.\<close>

datatype pyval =
    PNone
  | PBool bool
  | PInt int
  | PStr string
  | PRequest request
  | PSocket nat

fun truthy :: "pyval \<Rightarrow> bool" where
  "truthy PNone = False"
| "truthy (PBool b) = b"
| "truthy (PInt i) = (i \<noteq> 0)"
| "truthy (PStr s) = (s \<noteq> [])"
| "truthy (PRequest r) = True"
| "truthy (PSocket n) = True"

text \<open>The real connection is an object of the standard library's connection class.
  Its state is what the proxy reads of it; what its methods do is the parameter
  \<open>real_env\<close>. A method of it returns, or raises an \<^verbatim>\<open>AttributeError\<close> or some other
  exception of the library; it cannot raise an exception class of this package.\<close>

record real_connection =
  host :: string
  port :: int
  sock :: pyval
  rc_attrs :: "(string, pyval) dict"

datatype foreign = ForeignAttributeError | ForeignError string

fun raise_foreign :: "foreign \<Rightarrow> exn" where
  "raise_foreign ForeignAttributeError = AttributeError"
| "raise_foreign (ForeignError s) = Foreign s"

text \<open>The response of the real connection: its status, its reason, its message object
  and what \<^verbatim>\<open>read()\<close> returns or raises.\<close>

record 'm live_response =
  lr_status :: int
  lr_reason :: string
  lr_msg :: 'm
  lr_read :: "foreign + string"

record 'm real_env =
  rc_new :: "string \<Rightarrow> int option \<Rightarrow> foreign + real_connection"
  rc_setattr :: "string \<Rightarrow> pyval \<Rightarrow> real_connection \<Rightarrow> (foreign + unit) \<times> real_connection"
  rc_connect :: "real_connection \<Rightarrow> (foreign + unit) \<times> real_connection"
  rc_request :: "string \<Rightarrow> string \<Rightarrow> string option \<Rightarrow> headers \<Rightarrow> real_connection \<Rightarrow>
                   (foreign + unit) \<times> real_connection"
  rc_getresponse :: "real_connection \<Rightarrow> (foreign + 'm live_response) \<times> real_connection"
  rc_close :: "real_connection \<Rightarrow> (foreign + unit) \<times> real_connection"
  rc_set_tunnel :: "string \<Rightarrow> int option \<Rightarrow> headers option \<Rightarrow> real_connection \<Rightarrow>
                      (foreign + unit) \<times> real_connection"
  rc_set_debuglevel :: "int \<Rightarrow> real_connection \<Rightarrow> (foreign + unit) \<times> real_connection"

text \<open>Every operation that the proxy invokes on the real connection is logged.\<close>

datatype real_call =
    R_new
  | R_setattr string pyval
  | R_connect
  | R_request string string "string option" headers
  | R_getresponse
  | R_read
  | R_close
  | R_set_tunnel string "int option" "headers option"
  | R_set_debuglevel int

text \<open>The cassette is a collaborator outside the sources: a state of type \<open>'k\<close> and the
  operations the proxy calls on it. \<^verbatim>\<open>play_response\<close> returns a reference to a recorded
  response in the store, \<^verbatim>\<open>append\<close> takes one. \<open>repr_request\<close> and \<open>repr_str\<close> are
  \<^verbatim>\<open>%r\<close> for a Request and for a string.\<close>

record 'k cassette =
  can_play_response_for :: "'k \<Rightarrow> request \<Rightarrow> bool"
  play_response :: "'k \<Rightarrow> request \<Rightarrow> addr \<times> 'k"
  append_response :: "'k \<Rightarrow> request \<Rightarrow> addr \<Rightarrow> 'k"
  filter_request :: "'k \<Rightarrow> request \<Rightarrow> bool"
  write_protected :: "'k \<Rightarrow> bool"
  u_path :: "'k \<Rightarrow> string"
  record_mode :: "'k \<Rightarrow> string"
  repr_request :: "request \<Rightarrow> string"
  repr_str :: "string \<Rightarrow> string"

subsection \<open>The state\<close>

text \<open>The attributes of one \<^verbatim>\<open>VCRConnection\<close> object, and with them what its methods
  reach: the state of the cassette, the store of recorded responses with the next free
  address, and the log of the calls on the real connection. \<open>real_connection\<close> and
  \<open>u_vcr_request\<close> are \<open>None\<close> while the object has no such attribute.\<close>

record 'k world =
  u_protocol :: protocol
  real_connection :: "real_connection option"
  u_proxied :: bool
  u_proxied_host :: "string option"
  u_proxied_port :: "int option"
  u_vcr_request :: "request option"
  attrs :: "(string, pyval) dict"
  cassette_state :: 'k
  heap :: store
  next_addr :: addr
  real_calls :: "real_call list"

type_synonym ('k, 'a) action = "'k world \<Rightarrow> (exn + 'a) \<times> 'k world"

definition then_do :: "('k, 'a) action \<Rightarrow> ('a \<Rightarrow> ('k, 'b) action) \<Rightarrow> ('k, 'b) action" where
  "then_do m f w = (case m w of (Inl e, w') \<Rightarrow> (Inl e, w') | (Inr x, w') \<Rightarrow> f x w')"

text \<open>A call on the real connection: \<^verbatim>\<open>self.real_connection\<close> raises
  \<^verbatim>\<open>AttributeError\<close> while there is none; otherwise the call is logged and its effect
  on the real connection kept, also when it raises.\<close>

definition on_real ::
  "real_call \<Rightarrow> (real_connection \<Rightarrow> (foreign + 'a) \<times> real_connection) \<Rightarrow> ('k, 'a) action" where
  "on_real c f w =
     (case real_connection w of
        None \<Rightarrow> (Inl AttributeError, w)
      | Some rc \<Rightarrow>
          (case f rc of
             (r, rc') \<Rightarrow>
               (map_sum raise_foreign id r,
                w\<lparr>real_connection := Some rc', real_calls := real_calls w @ [c]\<rparr>)))"

subsection \<open>Attribute assignment\<close>

text \<open>
  \<^verbatim>\<open>
  def __setattr__(self, name, value):
      try:
          setattr(self.real_connection, name, value)
      except AttributeError:
          pass
      super(VCRConnection, self).__setattr__(name, value)

  @sock.setter
  def sock(self, value):
      if self.real_connection.sock:
          self.real_connection.sock = value
  \<close>
  An assignment is one of the attributes the methods read, with a value of its type, or
  \<^verbatim>\<open>sock\<close>, which is a property with the setter above, or any other name
  (\<open>Set_attr\<close>, for names that are none of the former).
\<close>

datatype assignment =
    Set_vcr_request request
  | Set_proxied bool
  | Set_proxied_host "string option"
  | Set_proxied_port "int option"
  | Set_sock pyval
  | Set_attr string pyval

fun attr_name :: "assignment \<Rightarrow> string" where
  "attr_name (Set_vcr_request r) = ''_vcr_request''"
| "attr_name (Set_proxied b) = ''_proxied''"
| "attr_name (Set_proxied_host h) = ''_proxied_host''"
| "attr_name (Set_proxied_port p) = ''_proxied_port''"
| "attr_name (Set_sock v) = ''sock''"
| "attr_name (Set_attr name v) = name"

fun attr_value :: "assignment \<Rightarrow> pyval" where
  "attr_value (Set_vcr_request r) = PRequest r"
| "attr_value (Set_proxied b) = PBool b"
| "attr_value (Set_proxied_host h) = (case h of None \<Rightarrow> PNone | Some s \<Rightarrow> PStr s)"
| "attr_value (Set_proxied_port p) = (case p of None \<Rightarrow> PNone | Some i \<Rightarrow> PInt i)"
| "attr_value (Set_sock v) = v"
| "attr_value (Set_attr name v) = v"

text \<open>\<^verbatim>\<open>super().__setattr__(name, value)\<close>: the attribute of the proxy itself.\<close>

fun super_setattr :: "'m real_env \<Rightarrow> assignment \<Rightarrow> ('k, unit) action" where
  "super_setattr E (Set_vcr_request r) w = (Inr (), w\<lparr>u_vcr_request := Some r\<rparr>)"
| "super_setattr E (Set_proxied b) w = (Inr (), w\<lparr>u_proxied := b\<rparr>)"
| "super_setattr E (Set_proxied_host h) w = (Inr (), w\<lparr>u_proxied_host := h\<rparr>)"
| "super_setattr E (Set_proxied_port p) w = (Inr (), w\<lparr>u_proxied_port := p\<rparr>)"
| "super_setattr E (Set_sock v) w =
     (case real_connection w of
        None \<Rightarrow> (Inl AttributeError, w)
      | Some rc \<Rightarrow>
          if truthy (sock rc) then on_real (R_setattr ''sock'' v) (rc_setattr E ''sock'' v) w
          else (Inr (), w))"
| "super_setattr E (Set_attr name v) w = (Inr (), w\<lparr>attrs := dict_set (attrs w) name v\<rparr>)"

definition setattr :: "'m real_env \<Rightarrow> assignment \<Rightarrow> ('k, unit) action" where
  "setattr E a w =
     (case on_real (R_setattr (attr_name a) (attr_value a))
             (rc_setattr E (attr_name a) (attr_value a)) w of
        (Inl e, w') \<Rightarrow> if e = AttributeError then super_setattr E a w' else (Inl e, w')
      | (Inr u, w') \<Rightarrow> super_setattr E a w')"

subsection \<open>Construction and tunnel setup\<close>

text \<open>
  \<^verbatim>\<open>
  def __init__(self, *args, **kwargs):
      if six.PY3:
          kwargs.pop('strict', None)
      from vcr.patch import force_reset
      with force_reset():
          self.real_connection = self._baseclass(*args, **kwargs)
      self._proxied = self._protocol in proxied_protocols
      self._proxied_host = None
      self._proxied_port = None
  \<close>
  The new object has no attribute yet, so the first assignment finds no
  \<^verbatim>\<open>self.real_connection\<close> to write to and sets the attribute of the proxy only.
  \<^verbatim>\<open>force_reset\<close> belongs to the patching code, which is outside the sources, and
  changes nothing of the state here.
\<close>

definition new_object :: "protocol \<Rightarrow> 'k world \<Rightarrow> 'k world" where
  "new_object p w =
     w\<lparr>u_protocol := p, real_connection := None, u_proxied := False,
       u_proxied_host := None, u_proxied_port := None, u_vcr_request := None, attrs := []\<rparr>"

definition VCRConnection_init ::
  "'m real_env \<Rightarrow> (string, string) dict \<Rightarrow> protocol \<Rightarrow> string \<Rightarrow> int option \<Rightarrow>
     ('k, unit) action" where
  "VCRConnection_init E environ p h prt w =
     (let w0 = new_object p w in
      case rc_new E h prt of
        Inl e \<Rightarrow> (Inl (raise_foreign e), w0\<lparr>real_calls := real_calls w0 @ [R_new]\<rparr>)
      | Inr rc \<Rightarrow>
          then_do (setattr E (Set_proxied (protocol_name p \<in> set (proxied_protocols environ))))
            (\<lambda>_. then_do (setattr E (Set_proxied_host None))
            (\<lambda>_. setattr E (Set_proxied_port None)))
            (w0\<lparr>real_connection := Some rc, real_calls := real_calls w0 @ [R_new]\<rparr>))"

text \<open>
  \<^verbatim>\<open>
  def set_tunnel(self, host, port=None, headers=None):
      assert self._proxied, 'set_tunnel was called without the https_proxy env var being set'
      self._proxied_host = host
      self._proxied_port = port or {'https': 443, 'http': 80}[self._protocol]
      self.real_connection.set_tunnel(host, port, headers)
  \<close>
  \<^verbatim>\<open>port or d\<close> is \<open>d\<close> for \<^verbatim>\<open>None\<close> and for \<open>0\<close>.
\<close>

definition port_or :: "int option \<Rightarrow> int \<Rightarrow> int" where
  "port_or prt d = (case prt of None \<Rightarrow> d | Some i \<Rightarrow> if i = 0 then d else i)"

definition set_tunnel ::
  "'m real_env \<Rightarrow> string \<Rightarrow> int option \<Rightarrow> headers option \<Rightarrow> ('k, unit) action" where
  "set_tunnel E h prt hdrs w =
     (if \<not> u_proxied w then
        (Inl (AssertionError
           ''set_tunnel was called without the https_proxy env var being set''), w)
      else
        then_do (setattr E (Set_proxied_host (Some h)))
          (\<lambda>_. then_do (setattr E (Set_proxied_port
                   (Some (port_or prt (default_port (u_protocol w))))))
          (\<lambda>_. on_real (R_set_tunnel h prt hdrs) (rc_set_tunnel E h prt hdrs))) w)"

subsection \<open>URI resolution and its inverse\<close>

text \<open>
  \<^verbatim>\<open>
  def _port_postfix(self):
      default_port = {'https': 443, 'http': 80}[self._protocol]
      if self._proxied:
          port = self._proxied_port
      else:
          port = self.real_connection.port
      return ':{0}'.format(port) if port != default_port else ''
  \<close>
  \<^verbatim>\<open>_proxied_port\<close> is \<^verbatim>\<open>None\<close> until \<^verbatim>\<open>set_tunnel\<close>, and \<^verbatim>\<open>None\<close> is rendered as
  \<open>None\<close>.
\<close>

definition format_port :: "int option \<Rightarrow> string" where
  "format_port prt = (case prt of None \<Rightarrow> ''None'' | Some i \<Rightarrow> str_int i)"

definition u_port_postfix :: "'k world \<Rightarrow> exn + string" where
  "u_port_postfix w =
     (let default_port = default_port (u_protocol w) in
      case (if u_proxied w then Inr (u_proxied_port w)
            else (case real_connection w of
                    None \<Rightarrow> Inl AttributeError
                  | Some rc \<Rightarrow> Inr (Some (port rc)))) of
        Inl e \<Rightarrow> Inl e
      | Inr prt \<Rightarrow> Inr (if prt \<noteq> Some default_port then '':'' @ format_port prt else []))"

text \<open>
  \<^verbatim>\<open>
  def _uri(self, url):
      if self._proxied and not self._proxied_host:
          if self._protocol == 'http':
              return url
          else:
              raise AssertionError('we should be proxied, but the client never called set_tunnel')
      uri = "{0}://{1}{2}{3}".format(
          self._protocol,
          self._proxied_host if self._proxied else self.real_connection.host,
          self._port_postfix(),
          url,
      )
      return uri
  \<close>
  \<^verbatim>\<open>not self._proxied_host\<close> holds for \<^verbatim>\<open>None\<close> and for the empty string.
\<close>

definition host_falsy :: "string option \<Rightarrow> bool" where
  "host_falsy h = (case h of None \<Rightarrow> True | Some s \<Rightarrow> s = [])"

definition u_uri :: "string \<Rightarrow> 'k world \<Rightarrow> exn + string" where
  "u_uri url w =
     (if u_proxied w \<and> host_falsy (u_proxied_host w) then
        (if u_protocol w = Http then Inr url
         else Inl (AssertionError
                ''we should be proxied, but the client never called set_tunnel''))
      else
        (case (if u_proxied w then Inr (case u_proxied_host w of None \<Rightarrow> ''None'' | Some s \<Rightarrow> s)
               else (case real_connection w of
                       None \<Rightarrow> Inl AttributeError
                     | Some rc \<Rightarrow> Inr (host rc))) of
           Inl e \<Rightarrow> Inl e
         | Inr h \<Rightarrow>
             (case u_port_postfix w of
                Inl e \<Rightarrow> Inl e
              | Inr postfix \<Rightarrow> Inr (protocol_name (u_protocol w) @ ''://'' @ h @ postfix @ url))))"

text \<open>
  \<^verbatim>\<open>
  def _url(self, uri):
      prefix = "{0}://{1}{2}".format(
          self._protocol,
          self.real_connection.host,
          self._port_postfix(),
      )
      return uri.replace(prefix, '', 1)
  \<close>
\<close>

definition url_prefix :: "'k world \<Rightarrow> exn + string" where
  "url_prefix w =
     (case real_connection w of
        None \<Rightarrow> Inl AttributeError
      | Some rc \<Rightarrow>
          (case u_port_postfix w of
             Inl e \<Rightarrow> Inl e
           | Inr postfix \<Rightarrow> Inr (protocol_name (u_protocol w) @ ''://'' @ host rc @ postfix)))"

definition u_url :: "string \<Rightarrow> 'k world \<Rightarrow> exn + string" where
  "u_url absolute w =
     (case url_prefix w of
        Inl e \<Rightarrow> Inl e
      | Inr pfx \<Rightarrow> Inr (replace_first pfx [] absolute))"

subsection \<open>The Request Accumulator\<close>

text \<open>
  \<^verbatim>\<open>
  def request(self, method, url, body=None, headers=None):
      self._vcr_request = Request(
          method=method,
          uri=self._uri(url),
          body=body,
          headers=transform_proxy_headers(headers or {})
      )

  def putrequest(self, method, url, *args, **kwargs):
      self._vcr_request = Request(
          method=method,
          uri=self._uri(url),
          body="",
          headers={}
      )
  \<close>
  The calls of \<^verbatim>\<open>log.debug\<close> are left out.
\<close>

definition request ::
  "'m real_env \<Rightarrow> string \<Rightarrow> string \<Rightarrow> string option \<Rightarrow> headers option \<Rightarrow> ('k, unit) action" where
  "request E mth url bdy hdrs w =
     (case u_uri url w of
        Inl e \<Rightarrow> (Inl e, w)
      | Inr u \<Rightarrow>
          (case transform_proxy_headers (case hdrs of None \<Rightarrow> [] | Some h \<Rightarrow> h) of
             Inl e \<Rightarrow> (Inl e, w)
           | Inr hs \<Rightarrow>
               setattr E (Set_vcr_request \<lparr>req_method = mth, uri = u, body = bdy, headers = hs\<rparr>) w))"

definition putrequest :: "'m real_env \<Rightarrow> string \<Rightarrow> string \<Rightarrow> ('k, unit) action" where
  "putrequest E mth url w =
     (case u_uri url w of
        Inl e \<Rightarrow> (Inl e, w)
      | Inr u \<Rightarrow>
          setattr E (Set_vcr_request \<lparr>req_method = mth, uri = u, body = Some [], headers = []\<rparr>) w)"


definition send :: "string \<Rightarrow> ('k, unit) action" where
  "send data w =
     (case u_vcr_request w of
        None \<Rightarrow> (Inl AttributeError, w)
      | Some r \<Rightarrow>
          (Inr (), w\<lparr>u_vcr_request :=
             Some (r\<lparr>body := (case body r of
                                 None \<Rightarrow> Some data
                               | Some b \<Rightarrow> if b \<noteq> [] then Some (b @ data) else Some data)\<rparr>)\<rparr>))"

definition endheaders :: "string option \<Rightarrow> ('k, unit) action" where
  "endheaders message_body w =
     (case message_body of
        None \<Rightarrow> (Inr (), w)
      | Some b \<Rightarrow>
          (case u_vcr_request w of
             None \<Rightarrow> (Inl AttributeError, w)
           | Some r \<Rightarrow> (Inr (), w\<lparr>u_vcr_request := Some (r\<lparr>body := Some b\<rparr>)\<rparr>)))"

subsection \<open>connect, getresponse and the calls passed on\<close>

text \<open>
  \<^verbatim>\<open>
  def close(self):
      self.real_connection.close()

  def set_debuglevel(self, *args, **kwargs):
      self.real_connection.set_debuglevel(*args, **kwargs)

  def connect(self, *args, **kwargs):
      if hasattr(self, '_vcr_request') and \
              self.cassette.can_play_response_for(self._vcr_request):
          return
      if self.cassette.write_protected:
          return
      return self.real_connection.connect(*args, **kwargs)
  \<close>
\<close>

definition close_connection :: "'m real_env \<Rightarrow> ('k, unit) action" where
  "close_connection E w = on_real R_close (rc_close E) w"

definition set_debuglevel :: "'m real_env \<Rightarrow> int \<Rightarrow> ('k, unit) action" where
  "set_debuglevel E level w = on_real (R_set_debuglevel level) (rc_set_debuglevel E level) w"

definition connect :: "'m real_env \<Rightarrow> 'k cassette \<Rightarrow> ('k, unit) action" where
  "connect E K w =
     (if (case u_vcr_request w of
            None \<Rightarrow> False
          | Some r \<Rightarrow> can_play_response_for K (cassette_state w) r)
      then (Inr (), w)
      else if write_protected K (cassette_state w) then (Inr (), w)
      else on_real R_connect (rc_connect E) w)"

text \<open>
  \<^verbatim>\<open>
  def serialize_headers(response):
      out = {}
      for key, values in compat.get_headers(response.msg):
          out.setdefault(key, [])
          out[key].extend(values)
      return transform_proxy_headers(out)
  \<close>
\<close>

fun serialize_loop :: "headers \<Rightarrow> (string \<times> string list) list \<Rightarrow> headers" where
  "serialize_loop out [] = out"
| "serialize_loop out ((key, values) # rest) =
     serialize_loop
       (dict_set out key ((case dict_get out key of None \<Rightarrow> [] | Some vs \<Rightarrow> vs) @ values))
       rest"

definition serialize_headers :: "'m compat \<Rightarrow> 'm live_response \<Rightarrow> exn + headers" where
  "serialize_headers C response =
     transform_proxy_headers (serialize_loop [] (get_headers C (lr_msg response)))"

text \<open>\<^verbatim>\<open>VCRHTTPResponse(response)\<close> on the store of the state.\<close>

definition new_VCRHTTPResponse :: "'m compat \<Rightarrow> addr \<Rightarrow> ('k, 'm VCRHTTPResponse) action" where
  "new_VCRHTTPResponse C a w =
     (case VCRHTTPResponse_init C a (heap w) of
        (res, \<sigma>') \<Rightarrow> (res, w\<lparr>heap := \<sigma>'\<rparr>))"

text \<open>The message of the cannot-record fault:
  \<^verbatim>\<open>"No match for the request (%r) was found. Can't overwrite existing cassette (%r) in your current record mode (%r)." % (self._vcr_request, self.cassette._path, self.cassette.record_mode)\<close>\<close>

definition cannot_overwrite_message :: "'k cassette \<Rightarrow> 'k \<Rightarrow> request \<Rightarrow> string" where
  "cannot_overwrite_message K k r =
     ''No match for the request ('' @ repr_request K r @ '') was found. Can'' @ [CHR 0x27] @
     ''t overwrite existing cassette ('' @ repr_str K (u_path K k) @
     '') in your current record mode ('' @ repr_str K (record_mode K k) @ '').''"

text \<open>
  \<^verbatim>\<open>
  def getresponse(self, _=False, **kwargs):
      if self.cassette.can_play_response_for(self._vcr_request):
          response = self.cassette.play_response(self._vcr_request)
          return VCRHTTPResponse(response)
      else:
          if self.cassette.write_protected and self.cassette.filter_request(
              self._vcr_request
          ):
              raise CannotOverwriteExistingCassetteException(...)
          from vcr.patch import force_reset
          with force_reset():
              self.real_connection.request(
                  method=self._vcr_request.method,
                  url=self._url(self._vcr_request.uri),
                  body=self._vcr_request.body,
                  headers=self._vcr_request.headers,
              )
          response = self.real_connection.getresponse()
          if self._proxied:
              self.auto_open = 0
          response = {
              'status': {'code': response.status, 'message': response.reason},
              'headers': serialize_headers(response),
              'body': {'string': response.read()},
          }
          self.cassette.append(self._vcr_request, response)
      return VCRHTTPResponse(response)
  \<close>
  The new dictionary of the live path is allocated at the next free address of the
  store. The calls of \<^verbatim>\<open>log.info\<close> are left out.
\<close>

definition record_live ::
  "'m compat \<Rightarrow> 'k cassette \<Rightarrow> request \<Rightarrow> 'm live_response \<Rightarrow> ('k, 'm VCRHTTPResponse) action" where
  "record_live C K r response w =
     (case serialize_headers C response of
        Inl e \<Rightarrow> (Inl e, w)
      | Inr hs \<Rightarrow>
          (case lr_read response of
             Inl e \<Rightarrow> (Inl (raise_foreign e), w\<lparr>real_calls := real_calls w @ [R_read]\<rparr>)
           | Inr data \<Rightarrow>
               (let a = next_addr w;
                    rr = \<lparr>status_code = lr_status response, status_message = lr_reason response,
                          rr_headers = hs, body_string = data\<rparr>
                in new_VCRHTTPResponse C a
                     (w\<lparr>heap := (heap w)(a := rr), next_addr := Suc a,
                        cassette_state := append_response K (cassette_state w) r a,
                        real_calls := real_calls w @ [R_read]\<rparr>))))"

definition send_live ::
  "'m compat \<Rightarrow> 'm real_env \<Rightarrow> 'k cassette \<Rightarrow> request \<Rightarrow> ('k, 'm VCRHTTPResponse) action" where
  "send_live C E K r w =
     (case real_connection w of
        None \<Rightarrow> (Inl AttributeError, w)
      | Some rc \<Rightarrow>
          (case u_url (uri r) w of
             Inl e \<Rightarrow> (Inl e, w)
           | Inr url \<Rightarrow>
               then_do (on_real (R_request (req_method r) url (body r) (headers r))
                          (rc_request E (req_method r) url (body r) (headers r)))
                 (\<lambda>_. then_do (on_real R_getresponse (rc_getresponse E))
                 (\<lambda>response.
                    then_do (\<lambda>w'. if u_proxied w' then setattr E (Set_attr ''auto_open'' (PInt 0)) w'
                                   else (Inr (), w'))
                 (\<lambda>_. record_live C K r response))) w))"

definition getresponse ::
  "'m compat \<Rightarrow> 'm real_env \<Rightarrow> 'k cassette \<Rightarrow> ('k, 'm VCRHTTPResponse) action" where
  "getresponse C E K w =
     (case u_vcr_request w of
        None \<Rightarrow> (Inl AttributeError, w)
      | Some r \<Rightarrow>
          if can_play_response_for K (cassette_state w) r then
            (case play_response K (cassette_state w) r of
               (response, k') \<Rightarrow> new_VCRHTTPResponse C response (w\<lparr>cassette_state := k'\<rparr>))
          else if write_protected K (cassette_state w) \<and> filter_request K (cassette_state w) r then
            (Inl (CannotOverwriteExistingCassetteException
                    (cannot_overwrite_message K (cassette_state w) r)), w)
          else send_live C E K r w)"

subsection \<open>The socket\<close>

text \<open>
  \<^verbatim>\<open>
  class VCRFakeSocket(object):
      def close(self): pass
      def settimeout(self, *args, **kwargs): pass
      def fileno(self): return 0

  @property
  def sock(self):
      if self.real_connection.sock:
          return self.real_connection.sock
      elif self._proxied:
          return None
      return VCRFakeSocket()
  \<close>
\<close>

datatype sock_value = The_sock pyval | No_sock | VCRFakeSocket

definition fileno :: int where
  "fileno = 0"

definition sock_property :: "'k world \<Rightarrow> exn + sock_value" where
  "sock_property w =
     (case real_connection w of
        None \<Rightarrow> Inl AttributeError
      | Some rc \<Rightarrow>
          if truthy (sock rc) then Inr (The_sock (sock rc))
          else if u_proxied w then Inr No_sock
          else Inr VCRFakeSocket)"

section \<open>Instances for concrete runs\<close>

text \<open>A real connection that is a plain object: an assignment stores the attribute,
  except that \<open>read_only\<close> has no setter (\<^verbatim>\<open>AttributeError\<close>) and \<open>timeout\<close> checks
  its value (\<^verbatim>\<open>TypeError\<close> for a string); \<^verbatim>\<open>connect\<close> opens a socket; the response to
  every request is \<open>200 OK\<close> with the body \<open>live\<close>.\<close>

definition example_env :: "string real_env" where
  "example_env =
     \<lparr>rc_new = (\<lambda>h prt. Inr \<lparr>host = h, port = (case prt of None \<Rightarrow> 443 | Some i \<Rightarrow> i),
                              sock = PNone, rc_attrs = []\<rparr>),
      rc_setattr = (\<lambda>name v rc.
         if name = ''read_only'' then (Inl ForeignAttributeError, rc)
         else if name = ''timeout'' \<and> (case v of PStr s \<Rightarrow> True | _ \<Rightarrow> False)
           then (Inl (ForeignError ''TypeError''), rc)
         else (Inr (), rc\<lparr>rc_attrs := dict_set (rc_attrs rc) name v\<rparr>)),
      rc_connect = (\<lambda>rc. (Inr (), rc\<lparr>sock := PSocket 3\<rparr>)),
      rc_request = (\<lambda>mth url bdy hdrs rc. (Inr (), rc)),
      rc_getresponse = (\<lambda>rc.
         (Inr \<lparr>lr_status = 200, lr_reason = ''OK'', lr_msg = [], lr_read = Inr ''live''\<rparr>, rc)),
      rc_close = (\<lambda>rc. (Inr (), rc\<lparr>sock := PNone\<rparr>)),
      rc_set_tunnel = (\<lambda>h prt hdrs rc. (Inr (), rc)),
      rc_set_debuglevel = (\<lambda>level rc. (Inr (), rc))\<rparr>"

text \<open>A cassette whose state is the list of its recorded exchanges, a request with the
  address of its response; \<open>wp\<close> says whether it is write-protected.\<close>

definition example_cassette :: "bool \<Rightarrow> ((request \<times> addr) list) cassette" where
  "example_cassette wp =
     \<lparr>can_play_response_for = (\<lambda>k r. map_of k r \<noteq> None),
      play_response = (\<lambda>k r. (case map_of k r of None \<Rightarrow> 0 | Some a \<Rightarrow> a, k)),
      append_response = (\<lambda>k r a. k @ [(r, a)]),
      filter_request = (\<lambda>k r. True),
      write_protected = (\<lambda>k. wp),
      u_path = (\<lambda>k. ''widgets.yaml''),
      record_mode = (\<lambda>k. if wp then ''none'' else ''new_episodes''),
      repr_request = (\<lambda>r. ''<Request ('' @ req_method r @ '') '' @ uri r @ ''>''),
      repr_str = (\<lambda>s. [CHR 0x27] @ s @ [CHR 0x27])\<rparr>"

definition example_recording :: recorded_response where
  "example_recording =
     \<lparr>status_code = 200, status_message = ''OK'',
      rr_headers = [(''Content-Type'', [''text/plain''])], body_string = ''widgets''\<rparr>"

text \<open>An https connection to \<open>api.test\<close> on port 443, not proxy-aware, with no request in
  progress, an empty cassette and the example recording at every address.\<close>

definition example_world :: "((request \<times> addr) list) world" where
  "example_world =
     \<lparr>u_protocol = Https,
      real_connection = Some \<lparr>host = ''api.test'', port = 443, sock = PNone, rc_attrs = []\<rparr>,
      u_proxied = False,
      u_proxied_host = None,
      u_proxied_port = None,
      u_vcr_request = None,
      attrs = [],
      cassette_state = [],
      heap = (\<lambda>a. example_recording),
      next_addr = 0,
      real_calls = []\<rparr>"

text \<open>The same connection when the environment names an https proxy: the real
  connection is the one to the proxy.\<close>

definition proxied_world :: "((request \<times> addr) list) world" where
  "proxied_world =
     example_world\<lparr>real_connection :=
                     Some \<lparr>host = ''proxy.test'', port = 3128, sock = PNone, rc_attrs = []\<rparr>,
                   u_proxied := True\<rparr>"

section \<open>Properties of the Header Transform\<close>

lemma lower_char_hyphen: "lower_char c = CHR ''-'' \<longleftrightarrow> c = CHR ''-''"
  by (simp add: lower_char_def)

lemma split_not_Nil: "split sep s \<noteq> []"
  by (induction s) (auto split: list.splits)

lemma split_no_sep: "sep \<notin> set s \<Longrightarrow> split sep s = [s]"
  by (induction s) auto

lemma hyphen_lower: "CHR ''-'' \<in> set s \<Longrightarrow> CHR ''-'' \<in> set (lower s)"
proof -
  assume "CHR ''-'' \<in> set s"
  then have "lower_char CHR ''-'' \<in> lower_char ` set s"
    by (rule imageI)
  then show ?thesis
    by (simp add: lower_def lower_char_def)
qed

lemma split_proxy_connection:
  assumes "lower key = ''proxy-connection''"
  shows "index1 (split CHR ''-'' key) = Inr (drop 6 key)"
proof -
  from assms obtain c0 c1 c2 c3 c4 c5 rest where
    key: "key = c0 # c1 # c2 # c3 # c4 # c5 # rest"
    and c: "lower_char c0 = CHR ''p''" "lower_char c1 = CHR ''r''" "lower_char c2 = CHR ''o''"
      "lower_char c3 = CHR ''x''" "lower_char c4 = CHR ''y''" "lower_char c5 = CHR ''-''"
    and rest: "lower rest = ''connection''"
    by (auto simp: lower_def map_eq_Cons_conv)
  have ne: "c0 \<noteq> CHR ''-''" "c1 \<noteq> CHR ''-''" "c2 \<noteq> CHR ''-''" "c3 \<noteq> CHR ''-''"
    "c4 \<noteq> CHR ''-''"
    using c by (auto simp: lower_char_def)
  have c5: "c5 = CHR ''-''"
    using c(6) by (simp add: lower_char_hyphen)
  have "CHR ''-'' \<notin> set rest"
    using hyphen_lower [of rest] rest by auto
  then have sp: "split CHR ''-'' rest = [rest]"
    by (rule split_no_sep)
  show ?thesis
    using ne c5 sp by (simp add: key index1_def)
qed

lemma dict_set_fresh: "k \<notin> fst ` set d \<Longrightarrow> dict_set d k v = d @ [(k, v)]"
  by (induction d) auto

lemma map_filter_Cons_Some:
  "f x = Some y \<Longrightarrow> List.map_filter f (x # xs) = y # List.map_filter f xs"
  by (simp add: List.map_filter_simps)

lemma map_filter_Cons_None:
  "f x = None \<Longrightarrow> List.map_filter f (x # xs) = List.map_filter f xs"
  by (simp add: List.map_filter_simps)

lemma transform_loop_no_collision:
  "distinct (map fst (acc @ List.map_filter transform_item items)) \<Longrightarrow>
   transform_loop acc items = Inr (acc @ List.map_filter transform_item items)"
proof (induction items arbitrary: acc)
  case Nil
  then show ?case by (simp add: List.map_filter_simps)
next
  case (Cons kv items)
  obtain key vals where kv: "kv = (key, vals)" by (cases kv)
  consider (conn) "lower key = ''proxy-connection''"
    | (auth) "lower key \<noteq> ''proxy-connection''" "lower key = ''proxy-authorization''"
    | (other) "lower key \<noteq> ''proxy-connection''" "lower key \<noteq> ''proxy-authorization''"
    by blast
  then show ?case
  proof cases
    case conn
    then have item: "transform_item kv = Some (drop 6 key, vals)"
      by (simp add: transform_item_def kv)
    have mf: "List.map_filter transform_item (kv # items) =
        (drop 6 key, vals) # List.map_filter transform_item items"
      using item by (rule map_filter_Cons_Some)
    from Cons.prems [unfolded mf] have fresh: "drop 6 key \<notin> fst ` set acc"
      and dist: "distinct (map fst ((acc @ [(drop 6 key, vals)]) @
                   List.map_filter transform_item items))"
      by auto
    have "transform_loop (dict_set acc (drop 6 key) vals) items =
        Inr ((acc @ [(drop 6 key, vals)]) @ List.map_filter transform_item items)"
      using Cons.IH [OF dist] by (simp add: dict_set_fresh [OF fresh])
    then show ?thesis
      using conn by (simp add: kv split_proxy_connection item [unfolded kv])
  next
    case auth
    then have item: "transform_item kv = None"
      by (simp add: transform_item_def kv)
    have mf: "List.map_filter transform_item (kv # items) =
        List.map_filter transform_item items"
      using item by (rule map_filter_Cons_None)
    from Cons.prems [unfolded mf]
    have "distinct (map fst (acc @ List.map_filter transform_item items))" .
    from Cons.IH [OF this] show ?thesis
      using auth by (simp add: kv item [unfolded kv])
  next
    case other
    then have item: "transform_item kv = Some (key, vals)"
      by (simp add: transform_item_def kv)
    have mf: "List.map_filter transform_item (kv # items) =
        (key, vals) # List.map_filter transform_item items"
      using item by (rule map_filter_Cons_Some)
    from Cons.prems [unfolded mf] have fresh: "key \<notin> fst ` set acc"
      and dist: "distinct (map fst ((acc @ [(key, vals)]) @
                   List.map_filter transform_item items))"
      by auto
    have "transform_loop (dict_set acc key vals) items =
        Inr ((acc @ [(key, vals)]) @ List.map_filter transform_item items)"
      using Cons.IH [OF dist] by (simp add: dict_set_fresh [OF fresh])
    then show ?thesis
      using other by (simp add: kv item [unfolded kv])
  qed
qed

lemma transform_loop_total: "\<exists>d. transform_loop acc items = Inr d"
proof (induction items arbitrary: acc)
  case Nil
  show ?case by simp
next
  case (Cons kv items)
  obtain key vals where kv: "kv = (key, vals)" by (cases kv)
  show ?case
    using Cons.IH by (simp add: kv split_proxy_connection)
qed

lemma transform_proxy_headers_total: "\<exists>d. transform_proxy_headers header_list = Inr d"
  unfolding transform_proxy_headers_def by (rule transform_loop_total)


section \<open>Properties of the Response Synthesizer\<close>

lemma parse_headers_total: "\<exists>m. parse_headers C hs = Inr m"
  using transform_proxy_headers_total [of hs]
  by (auto simp: parse_headers_def header_string_def)

lemma VCRHTTPResponse_init_total: "\<exists>r. fst (VCRHTTPResponse_init C a \<sigma>) = Inr r"
  using parse_headers_total [of C "strip_transfer_encoding (rr_headers (\<sigma> a))"]
  by (auto simp: VCRHTTPResponse_init_def Let_def)

lemma VCRHTTPResponse_init_store:
  "snd (VCRHTTPResponse_init C a \<sigma>) =
     \<sigma>(a := (\<sigma> a)\<lparr>rr_headers := strip_transfer_encoding (rr_headers (\<sigma> a))\<rparr>)"
  by (simp add: VCRHTTPResponse_init_def Let_def split: sum.splits)

lemma VCRHTTPResponse_init_content:
  "fst (VCRHTTPResponse_init C a \<sigma>) = Inr r \<Longrightarrow>
     u_content r = \<lparr>buf = body_string (\<sigma> a), pos = 0\<rparr>"
  by (auto simp: VCRHTTPResponse_init_def Let_def split: sum.splits)

text \<open>Reading the body of a fresh stub response, in one call or in pieces, gives the
  recorded bytes.\<close>

lemma read_all_recorded_body:
  "fst (VCRHTTPResponse_init C a \<sigma>) = Inr r \<Longrightarrow> fst (read None r) = body_string (\<sigma> a)"
  by (simp add: VCRHTTPResponse_init_content read_def bytesio_read_def Let_def)

lemma read_chunks_rest:
  "0 < n \<Longrightarrow> concat (read_chunks n self) = drop (pos (u_content self)) (buf (u_content self))"
proof (induction n self rule: read_chunks.induct)
  case (1 n self)
  let ?rest = "drop (pos (u_content self)) (buf (u_content self))"
  let ?k = "min n (length ?rest)"
  have rd: "read (Some (int n)) self =
      (take ?k ?rest, self\<lparr>u_content := (u_content self)\<lparr>pos := pos (u_content self) + ?k\<rparr>\<rparr>)"
    by (simp add: read_def bytesio_read_def Let_def)
  show ?case
  proof (cases "take ?k ?rest = []")
    case True
    with \<open>0 < n\<close> have "?rest = []" by (auto simp: min_def split: if_splits)
    with True show ?thesis
      by (subst read_chunks.simps) (simp add: rd)
  next
    case False
    have ih: "concat (read_chunks n
        (self\<lparr>u_content := (u_content self)\<lparr>pos := pos (u_content self) + ?k\<rparr>\<rparr>)) =
        drop (pos (u_content self) + ?k) (buf (u_content self))"
      using "1.IH" [OF rd [symmetric] False "1.prems"] by simp
    have step: "concat (read_chunks n self) = take ?k ?rest @
        drop (pos (u_content self) + ?k) (buf (u_content self))"
      using False ih by (subst read_chunks.simps) (simp add: rd)
    have "drop (pos (u_content self) + ?k) (buf (u_content self)) = drop ?k ?rest"
      by (simp add: add.commute)
    with step show ?thesis
      by (simp only: append_take_drop_id)
  qed
qed

lemma read_chunks_recorded_body:
  "fst (VCRHTTPResponse_init C a \<sigma>) = Inr r \<Longrightarrow> 0 < n \<Longrightarrow>
     concat (read_chunks n r) = body_string (\<sigma> a)"
  by (simp add: read_chunks_rest VCRHTTPResponse_init_content)

lemma replay_step_store: "snd (replay_step C op s) = snd s"
  by (cases s, cases op) simp_all

lemma fold_replay_step_store: "snd (fold (replay_step C) ops s) = snd s"
  by (induction ops arbitrary: s) (simp_all add: replay_step_store)

text \<open>What deleting a transfer-encoding key leaves of a header mapping.\<close>

lemma dict_del_filter:
  "\<not> P k \<Longrightarrow> filter (\<lambda>kv. P (fst kv)) (dict_del d k) = filter (\<lambda>kv. P (fst kv)) d"
  by (induction d) auto

lemma dict_del_subset: "set (dict_del d k) \<subseteq> set d"
  by (induction d) (auto split: if_splits)

lemma te_key_Cons: "te_key hs = k # ks \<Longrightarrow> upper k = ''TRANSFER-ENCODING''"
  unfolding te_key_def by (drule Cons_eq_filterD [OF sym]) auto

lemma strip_transfer_encoding_others:
  "filter (\<lambda>kv. upper (fst kv) \<noteq> ''TRANSFER-ENCODING'') (strip_transfer_encoding hs) =
     filter (\<lambda>kv. upper (fst kv) \<noteq> ''TRANSFER-ENCODING'') hs"
proof (cases "te_key hs")
  case Nil
  then show ?thesis by (simp add: strip_transfer_encoding_def)
next
  case (Cons k ks)
  from te_key_Cons [OF Cons]
  have "\<not> (\<lambda>h. upper h \<noteq> ''TRANSFER-ENCODING'') k" by simp
  from dict_del_filter [of "\<lambda>h. upper h \<noteq> ''TRANSFER-ENCODING''" k hs, OF this]
  show ?thesis by (simp add: strip_transfer_encoding_def Cons)
qed

lemma strip_transfer_encoding_subset: "set (strip_transfer_encoding hs) \<subseteq> set hs"
  by (cases "te_key hs") (simp_all add: strip_transfer_encoding_def dict_del_subset)

lemma strip_transfer_encoding_none: "te_key hs = [] \<Longrightarrow> strip_transfer_encoding hs = hs"
  by (simp add: strip_transfer_encoding_def)

section \<open>Properties of the Connection Proxy\<close>

lemma replace_first_absent: "\<not> sublist old s \<Longrightarrow> replace_first old new s = s"
proof (induction s)
  case Nil
  then show ?case by (cases old) simp_all
next
  case (Cons c s)
  from Cons.prems have np: "\<not> prefix old (c # s)" and ns: "\<not> sublist old s"
    by (simp_all add: sublist_Cons_right)
  from ns have "replace_first old new s = s" by (rule Cons.IH)
  with np show ?case by simp
qed

lemma replace_first_leftmost:
  "(\<forall>i<length ps. \<not> prefix old (drop i (ps @ old @ ss))) \<Longrightarrow>
     replace_first old new (ps @ old @ ss) = ps @ new @ ss"
proof (induction ps)
  case Nil
  show ?case
  proof (cases "old @ ss")
    case Nil
    then show ?thesis by simp
  next
    case (Cons c s)
    have "prefix old (c # s)" unfolding Cons [symmetric] by simp
    then have "replace_first old new (c # s) = new @ drop (length old) (c # s)"
      by simp
    then show ?thesis unfolding Cons [symmetric] by simp
  qed
next
  case (Cons p ps)
  from Cons.prems have first: "\<not> prefix old (p # ps @ old @ ss)"
    by (auto dest: spec [of _ 0])
  have "\<forall>i<length ps. \<not> prefix old (drop i (ps @ old @ ss))"
  proof (intro allI impI)
    fix i assume "i < length ps"
    then have "Suc i < length (p # ps)" by simp
    with Cons.prems have "\<not> prefix old (drop (Suc i) ((p # ps) @ old @ ss))" by blast
    then show "\<not> prefix old (drop i (ps @ old @ ss))" by simp
  qed
  from Cons.IH [OF this] first show ?case by simp
qed

lemma replace_first_at_start: "replace_first old new (old @ ss) = new @ ss"
  using replace_first_leftmost [of "[]" old ss new] by simp

text \<open>A call on the real connection changes the real connection and the log of the
  calls, and nothing else of the state.\<close>

lemma on_real_frame:
  "on_real c f w = (r, w') \<Longrightarrow>
     u_protocol w' = u_protocol w \<and> u_proxied w' = u_proxied w \<and>
     u_proxied_host w' = u_proxied_host w \<and> u_proxied_port w' = u_proxied_port w \<and>
     u_vcr_request w' = u_vcr_request w \<and> attrs w' = attrs w \<and>
     cassette_state w' = cassette_state w \<and> heap w' = heap w \<and> next_addr w' = next_addr w"
  by (auto simp: on_real_def split: option.splits prod.splits)

lemma on_real_None:
  "real_connection w = None \<Longrightarrow> on_real c f w = (Inl AttributeError, w)"
  by (simp add: on_real_def)

lemma on_real_Some:
  "real_connection w = Some rc \<Longrightarrow>
     on_real c f w =
       (map_sum raise_foreign id (fst (f rc)),
        w\<lparr>real_connection := Some (snd (f rc)), real_calls := real_calls w @ [c]\<rparr>)"
  by (simp add: on_real_def split: prod.splits)

lemma raise_foreign_AttributeError:
  "raise_foreign e = AttributeError \<longleftrightarrow> e = ForeignAttributeError"
  by (cases e) simp_all

lemma raise_foreign_not_cannot_overwrite:
  "raise_foreign e \<noteq> CannotOverwriteExistingCassetteException m"
  by (cases e) simp_all

lemma str_int_9443: "str_int 9443 = ''9443''"
  by (simp add: str_int_def str_nat.simps digit_def)

lemma setattr_proxied_host:
  "setattr E (Set_proxied_host h) w = (r, w') \<Longrightarrow>
     u_protocol w' = u_protocol w \<and> u_proxied w' = u_proxied w \<and>
     u_proxied_port w' = u_proxied_port w \<and> (r = Inr () \<longrightarrow> u_proxied_host w' = h)"
  by (auto simp: setattr_def on_real_def split: option.splits prod.splits sum.splits if_splits)

lemma setattr_proxied_port:
  "setattr E (Set_proxied_port p) w = (r, w') \<Longrightarrow>
     u_protocol w' = u_protocol w \<and> u_proxied w' = u_proxied w \<and>
     u_proxied_host w' = u_proxied_host w \<and> (r = Inr () \<longrightarrow> u_proxied_port w' = p)"
  by (auto simp: setattr_def on_real_def split: option.splits prod.splits sum.splits if_splits)

lemma set_tunnel_result:
  assumes "set_tunnel E h prt hdrs w = (Inr u, w')"
  shows "u_proxied w' \<and> u_proxied_host w' = Some h \<and>
         u_proxied_port w' = Some (port_or prt (default_port (u_protocol w))) \<and>
         u_protocol w' = u_protocol w"
proof -
  have prox: "u_proxied w"
    using assms by (auto simp: set_tunnel_def split: if_splits)
  obtain r1 w1 where s1: "setattr E (Set_proxied_host (Some h)) w = (r1, w1)"
    by (cases "setattr E (Set_proxied_host (Some h)) w") auto
  obtain r2 w2 where s2: "setattr E (Set_proxied_port
      (Some (port_or prt (default_port (u_protocol w))))) w1 = (r2, w2)"
    by (cases "setattr E (Set_proxied_port
      (Some (port_or prt (default_port (u_protocol w))))) w1") auto
  have r1: "r1 = Inr ()"
    using assms prox s1 by (cases r1) (auto simp: set_tunnel_def then_do_def)
  have r2: "r2 = Inr ()"
    using assms prox s1 s2 r1 by (cases r2) (auto simp: set_tunnel_def then_do_def)
  have last: "on_real (R_set_tunnel h prt hdrs) (rc_set_tunnel E h prt hdrs) w2 = (Inr u, w')"
    using assms prox s1 s2 r1 r2 by (simp add: set_tunnel_def then_do_def)
  from setattr_proxied_host [OF s1] setattr_proxied_port [OF s2] on_real_frame [OF last]
    prox r1 r2
  show ?thesis by simp
qed

lemma u_uri_tunnel:
  assumes "u_proxied w" and "u_proxied_host w = Some h" and "h \<noteq> []"
    and "u_proxied_port w = Some p"
  shows "u_uri url w =
           Inr (protocol_name (u_protocol w) @ ''://'' @ h @
                (if p = default_port (u_protocol w) then [] else '':'' @ str_int p) @ url)"
  using assms by (simp add: u_uri_def host_falsy_def u_port_postfix_def format_port_def)

lemma transform_proxy_headers_empty: "transform_proxy_headers [] = Inr []"
  by (simp add: transform_proxy_headers_def)


lemma header_map_get_set_same: "header_map_get (header_map_set d k v) k = Some v"
  by (induction d) auto




text \<open>No call on the real connection, and no assignment, raises the cannot-record
  fault.\<close>

lemma on_real_not_cannot_overwrite:
  "fst (on_real c f w) \<noteq> Inl (CannotOverwriteExistingCassetteException m)"
proof (cases "real_connection w")
  case None
  then show ?thesis by (simp add: on_real_None)
next
  case (Some rc)
  show ?thesis
    by (cases "fst (f rc)")
      (simp_all add: on_real_Some [OF Some] raise_foreign_not_cannot_overwrite)
qed

lemma super_setattr_not_cannot_overwrite:
  "fst (super_setattr E a w) \<noteq> Inl (CannotOverwriteExistingCassetteException m)"
  by (cases a) (simp_all add: on_real_not_cannot_overwrite split: option.splits)

lemma setattr_not_cannot_overwrite:
  "fst (setattr E a w) \<noteq> Inl (CannotOverwriteExistingCassetteException m)"
proof -
  obtain r0 w0 where o: "on_real (R_setattr (attr_name a) (attr_value a))
      (rc_setattr E (attr_name a) (attr_value a)) w = (r0, w0)"
    by (cases "on_real (R_setattr (attr_name a) (attr_value a))
      (rc_setattr E (attr_name a) (attr_value a)) w") auto
  have r0: "r0 \<noteq> Inl (CannotOverwriteExistingCassetteException m)"
    using on_real_not_cannot_overwrite [of "R_setattr (attr_name a) (attr_value a)"
      "rc_setattr E (attr_name a) (attr_value a)" w m] o by simp
  show ?thesis
    using r0 by (cases r0) (simp_all add: setattr_def o super_setattr_not_cannot_overwrite)
qed

lemma then_do_not_cannot_overwrite:
  assumes "\<And>w. fst (act w) \<noteq> Inl (CannotOverwriteExistingCassetteException m)"
    and "\<And>x w. fst (f x w) \<noteq> Inl (CannotOverwriteExistingCassetteException m)"
  shows "fst (then_do act f w) \<noteq> Inl (CannotOverwriteExistingCassetteException m)"
proof (cases "act w")
  case (Pair r w')
  show ?thesis
  proof (cases r)
    case (Inl e)
    with assms(1) [of w] Pair show ?thesis by (simp add: then_do_def)
  next
    case (Inr x)
    with assms(2) [of x w'] Pair show ?thesis by (simp add: then_do_def)
  qed
qed

lemma new_VCRHTTPResponse_returns: "\<exists>resp. fst (new_VCRHTTPResponse C a w) = Inr resp"
  using VCRHTTPResponse_init_total [of C a "heap w"]
  by (auto simp: new_VCRHTTPResponse_def split: prod.splits)

lemma new_VCRHTTPResponse_fst:
  "fst (new_VCRHTTPResponse C a w) = fst (VCRHTTPResponse_init C a (heap w))"
  by (cases "VCRHTTPResponse_init C a (heap w)") (simp add: new_VCRHTTPResponse_def)

lemma new_VCRHTTPResponse_frame:
  "real_calls (snd (new_VCRHTTPResponse C a w)) = real_calls w \<and>
   real_connection (snd (new_VCRHTTPResponse C a w)) = real_connection w \<and>
   cassette_state (snd (new_VCRHTTPResponse C a w)) = cassette_state w"
  by (simp add: new_VCRHTTPResponse_def split: prod.splits)

lemma record_live_not_cannot_overwrite:
  "fst (record_live C K r response w) \<noteq> Inl (CannotOverwriteExistingCassetteException m)"
proof -
  obtain hs where hs: "serialize_headers C response = Inr hs"
    using transform_proxy_headers_total by (auto simp: serialize_headers_def)
  show ?thesis
  proof (cases "lr_read response")
    case (Inl e)
    then show ?thesis
      by (simp add: record_live_def hs raise_foreign_not_cannot_overwrite)
  next
    case (Inr data)
    obtain resp where "fst (new_VCRHTTPResponse C (next_addr w)
        (w\<lparr>heap := (heap w)(next_addr w :=
              \<lparr>status_code = lr_status response, status_message = lr_reason response,
                 rr_headers = hs, body_string = data\<rparr>),
           next_addr := Suc (next_addr w),
           cassette_state := append_response K (cassette_state w) r (next_addr w),
           real_calls := real_calls w @ [R_read]\<rparr>)) = Inr resp"
      using new_VCRHTTPResponse_returns by blast
    then show ?thesis
      by (simp add: record_live_def hs Inr Let_def)
  qed
qed

lemma send_live_not_cannot_overwrite:
  "fst (send_live C E K r w) \<noteq> Inl (CannotOverwriteExistingCassetteException m)"
proof (cases "real_connection w")
  case None
  then show ?thesis by (simp add: send_live_def)
next
  case (Some rc)
  show ?thesis
  proof (cases "u_url (uri r) w")
    case (Inl e)
    then have "e = AttributeError"
      by (auto simp: u_url_def url_prefix_def u_port_postfix_def Let_def
          split: option.splits sum.splits if_splits)
    with Inl Some show ?thesis by (simp add: send_live_def)
  next
    case (Inr url)
    have auto_open: "fst ((\<lambda>w'. if u_proxied w'
        then setattr E (Set_attr ''auto_open'' (PInt 0)) w' else (Inr (), w')) w1) \<noteq>
        Inl (CannotOverwriteExistingCassetteException m)" for w1
      by (simp add: setattr_not_cannot_overwrite)
    show ?thesis
      unfolding send_live_def
      by (simp only: Some Inr option.case sum.case)
        (intro then_do_not_cannot_overwrite on_real_not_cannot_overwrite auto_open
          record_live_not_cannot_overwrite)
  qed
qed

text \<open>The calls that a successful assignment of one of the proxy's own fields adds to
  the log: the one assignment on the real connection.\<close>

lemma setattr_field_calls:
  assumes "setattr E a w = (Inr u, w')" and "\<forall>v. a \<noteq> Set_sock v"
    and "real_connection w = Some rc"
  shows "real_calls w' = real_calls w @ [R_setattr (attr_name a) (attr_value a)] \<and>
         (\<exists>rc'. real_connection w' = Some rc') \<and> u_protocol w' = u_protocol w"
  using assms(1,2)
  by (cases a)
    (auto simp: setattr_def on_real_Some [OF assms(3)] split: sum.splits if_splits)

lemma then_do_Inr:
  "then_do act f w = (Inr y, w') \<Longrightarrow> \<exists>x w1. act w = (Inr x, w1) \<and> f x w1 = (Inr y, w')"
  by (cases "act w") (auto simp: then_do_def split: sum.splits)

lemma set_tunnel_calls:
  assumes "set_tunnel E th tp hdrs w = (Inr u, w')"
  shows "real_calls w' = real_calls w @
           [R_setattr ''_proxied_host'' (PStr th),
            R_setattr ''_proxied_port'' (PInt (port_or tp (default_port (u_protocol w)))),
            R_set_tunnel th tp hdrs]"
proof -
  have run: "then_do (setattr E (Set_proxied_host (Some th)))
      (\<lambda>_. then_do (setattr E (Set_proxied_port
               (Some (port_or tp (default_port (u_protocol w))))))
      (\<lambda>_. on_real (R_set_tunnel th tp hdrs) (rc_set_tunnel E th tp hdrs))) w = (Inr u, w')"
    using assms by (auto simp: set_tunnel_def split: if_splits)
  from then_do_Inr [OF run] obtain x1 w1 where
    s1: "setattr E (Set_proxied_host (Some th)) w = (Inr x1, w1)"
    and rest: "then_do (setattr E (Set_proxied_port
               (Some (port_or tp (default_port (u_protocol w))))))
      (\<lambda>_. on_real (R_set_tunnel th tp hdrs) (rc_set_tunnel E th tp hdrs)) w1 = (Inr u, w')"
    by blast
  from then_do_Inr [OF rest] obtain x2 w2 where
    s2: "setattr E (Set_proxied_port (Some (port_or tp (default_port (u_protocol w))))) w1 =
      (Inr x2, w2)"
    and last: "on_real (R_set_tunnel th tp hdrs) (rc_set_tunnel E th tp hdrs) w2 = (Inr u, w')"
    by blast
  from last obtain rc2 where rc2: "real_connection w2 = Some rc2"
    by (cases "real_connection w2") (auto simp: on_real_None)
  have rc1: "\<exists>rc1. real_connection w1 = Some rc1"
  proof (cases "real_connection w1")
    case None
    with s2 rc2 show ?thesis
      by (auto simp: setattr_def on_real_None)
  next
    case (Some rc1)
    then show ?thesis by blast
  qed
  have rc0: "\<exists>rc. real_connection w = Some rc"
  proof (cases "real_connection w")
    case None
    with s1 rc1 show ?thesis
      by (auto simp: setattr_def on_real_None)
  next
    case (Some rc)
    then show ?thesis by blast
  qed
  from rc0 obtain rc where "real_connection w = Some rc" by blast
  from setattr_field_calls [OF s1 _ this]
  have c1: "real_calls w1 = real_calls w @ [R_setattr ''_proxied_host'' (PStr th)]"
    by simp
  from rc1 obtain rc1' where "real_connection w1 = Some rc1'" by blast
  from setattr_field_calls [OF s2 _ this]
  have c2: "real_calls w2 = real_calls w1 @
      [R_setattr ''_proxied_port'' (PInt (port_or tp (default_port (u_protocol w))))]"
    by simp
  have c3: "real_calls w' = real_calls w2 @ [R_set_tunnel th tp hdrs]"
    using last by (auto simp: on_real_Some [OF rc2])
  show ?thesis by (simp add: c1 c2 c3)
qed

lemma VCRConnection_init_calls:
  assumes "VCRConnection_init E environ proto ch cp w0 = (Inr u, w')"
  shows "real_calls w' = real_calls w0 @
           [R_new,
            R_setattr ''_proxied'' (PBool (protocol_name proto \<in> set (proxied_protocols environ))),
            R_setattr ''_proxied_host'' PNone,
            R_setattr ''_proxied_port'' PNone]"
proof -
  obtain rc where new: "rc_new E ch cp = Inr rc"
    using assms by (cases "rc_new E ch cp") (auto simp: VCRConnection_init_def Let_def)
  let ?w1 = "(new_object proto w0)\<lparr>real_connection := Some rc,
      real_calls := real_calls (new_object proto w0) @ [R_new]\<rparr>"
  have run: "then_do (setattr E (Set_proxied (protocol_name proto \<in> set (proxied_protocols environ))))
      (\<lambda>_. then_do (setattr E (Set_proxied_host None))
      (\<lambda>_. setattr E (Set_proxied_port None))) ?w1 = (Inr u, w')"
    using assms by (simp add: VCRConnection_init_def Let_def new)
  from then_do_Inr [OF run] obtain x1 w1 where
    s1: "setattr E (Set_proxied (protocol_name proto \<in> set (proxied_protocols environ))) ?w1 =
      (Inr x1, w1)"
    and rest: "then_do (setattr E (Set_proxied_host None))
      (\<lambda>_. setattr E (Set_proxied_port None)) w1 = (Inr u, w')"
    by blast
  from then_do_Inr [OF rest] obtain x2 w2 where
    s2: "setattr E (Set_proxied_host None) w1 = (Inr x2, w2)"
    and s3: "setattr E (Set_proxied_port None) w2 = (Inr u, w')"
    by blast
  have r0: "real_connection ?w1 = Some rc" by simp
  from setattr_field_calls [OF s1 _ r0]
  have c1: "real_calls w1 = real_calls ?w1 @
      [R_setattr ''_proxied'' (PBool (protocol_name proto \<in> set (proxied_protocols environ)))]"
    and "\<exists>rc'. real_connection w1 = Some rc'"
    by simp_all
  then obtain rc1 where r1: "real_connection w1 = Some rc1" by blast
  from setattr_field_calls [OF s2 _ r1]
  have c2: "real_calls w2 = real_calls w1 @ [R_setattr ''_proxied_host'' PNone]"
    and "\<exists>rc'. real_connection w2 = Some rc'"
    by simp_all
  then obtain rc2 where r2: "real_connection w2 = Some rc2" by blast
  from setattr_field_calls [OF s3 _ r2]
  have c3: "real_calls w' = real_calls w2 @ [R_setattr ''_proxied_port'' PNone]"
    by simp
  show ?thesis by (simp add: c1 c2 c3 new_object_def)
qed

section \<open>C4: the Header Transform\<close>

text \<open>
  C4, as the code has it. The name a proxy-connection entry gets is the part of its own
  name after the hyphen, in the letter case the caller wrote (\<open>Proxy-Connection\<close>
  becomes \<open>Connection\<close>). Where no two entries end up under one name, the result is
  a new mapping: the input with every entry named proxy-connection (in any letter case)
  renamed so, every entry named proxy-authorization (in any letter case) removed, and
  every other entry as it was, name, value list and position. The input is a value and
  is not changed.
\<close>

theorem transform_proxy_headers_renames_and_drops:
  assumes "distinct (map fst (List.map_filter transform_item header_list))"
  shows "transform_proxy_headers header_list =
           Inr (List.map_filter transform_item header_list) \<and>
         (lower (fst kv) = ''proxy-connection'' \<longrightarrow>
            transform_item kv = Some (drop 6 (fst kv), snd kv) \<and>
            lower (drop 6 (fst kv)) = ''connection'') \<and>
         (lower (fst kv) = ''proxy-authorization'' \<longrightarrow> transform_item kv = None) \<and>
         (lower (fst kv) \<noteq> ''proxy-connection'' \<and> lower (fst kv) \<noteq> ''proxy-authorization'' \<longrightarrow>
            transform_item kv = Some kv)"
proof -
  have "transform_proxy_headers header_list =
           Inr (List.map_filter transform_item header_list)"
    using assms transform_loop_no_collision [of "[]" header_list]
    by (simp add: transform_proxy_headers_def)
  moreover have "lower (fst kv) = ''proxy-connection'' \<longrightarrow>
      lower (drop 6 (fst kv)) = ''connection''"
    by (auto simp: lower_def drop_map [symmetric])
  ultimately show ?thesis
    by (simp add: transform_item_def)
qed

theorem transform_proxy_headers_renames_and_drops_witness:
  "distinct (map fst (List.map_filter transform_item
      [(''Proxy-Connection'', [''keep-alive'']), (''Proxy-Authorization'', [''Basic QQ'']),
       (''Accept'', [''text/html'', ''*/*''])])) \<and>
   transform_proxy_headers
      [(''Proxy-Connection'', [''keep-alive'']), (''Proxy-Authorization'', [''Basic QQ'']),
       (''Accept'', [''text/html'', ''*/*''])] =
     Inr [(''Connection'', [''keep-alive'']), (''Accept'', [''text/html'', ''*/*''])] \<and>
   transform_item (''Proxy-Connection'', [''keep-alive'']) =
     Some (''Connection'', [''keep-alive''])"
proof -
  have mf: "List.map_filter transform_item
      [(''Proxy-Connection'', [''keep-alive'']), (''Proxy-Authorization'', [''Basic QQ'']),
       (''Accept'', [''text/html'', ''*/*''])] =
     [(''Connection'', [''keep-alive'']), (''Accept'', [''text/html'', ''*/*''])]"
    by (simp add: List.map_filter_simps transform_item_def lower_def lower_char_def)
  have d: "distinct (map fst (List.map_filter transform_item
      [(''Proxy-Connection'', [''keep-alive'']), (''Proxy-Authorization'', [''Basic QQ'']),
       (''Accept'', [''text/html'', ''*/*''])]))"
    unfolding mf by simp
  have low: "lower (fst (''Proxy-Connection'', [''keep-alive''])) = ''proxy-connection''"
    by (simp add: lower_def lower_char_def)
  show ?thesis
    using transform_proxy_headers_renames_and_drops
      [OF d, of "(''Proxy-Connection'', [''keep-alive''])"] d low
    unfolding mf by simp
qed

text \<open>
  C4 as the spec states it fails twice. A \<open>Proxy-Connection\<close> entry is not renamed to
  \<open>connection\<close>: it becomes \<open>Connection\<close>. And an entry that is neither of the two
  proxy headers is not always passed through: a \<open>connection\<close> entry that stands
  before a \<open>proxy-connection\<close> entry loses its value list to it.
\<close>

theorem transform_proxy_headers_counterexample:
  "transform_proxy_headers [(''Proxy-Connection'', [''keep-alive''])] \<noteq>
     Inr [(''connection'', [''keep-alive''])] \<and>
   transform_proxy_headers [(''Proxy-Connection'', [''keep-alive''])] =
     Inr [(''Connection'', [''keep-alive''])] \<and>
   transform_proxy_headers [(''connection'', [''close'']), (''proxy-connection'', [''keep-alive''])] =
     Inr [(''connection'', [''keep-alive''])]"
  by (simp add: transform_proxy_headers_def lower_def lower_char_def index1_def)

section \<open>C3: the synthesized response\<close>

text \<open>
  C3 holds for the body and fails for the headers. The constructor deletes the first
  key that is transfer-encoding in some letter case and no other (\<^verbatim>\<open>te_key[0]\<close>):
  for a recording with the two keys \<open>Transfer-Encoding\<close> and \<open>transfer-encoding\<close> the
  header block handed to the message parser still has a transfer-encoding line, and
  so has the record. The body read from the stub response is the recorded one.
\<close>

theorem VCRHTTPResponse_init_keeps_second_transfer_encoding:
  "map_sum id VCRHTTPResponse.headers
     (fst (VCRHTTPResponse_init C 0
        (\<lambda>_. \<lparr>status_code = 200, status_message = ''OK'',
               rr_headers = [(''Transfer-Encoding'', [''chunked'']),
                             (''transfer-encoding'', [''chunked''])],
               body_string = ''hello''\<rparr>))) =
     Inr (get_httpmessage C (''transfer-encoding:chunked'' @ CRLF)) \<and>
   te_key (rr_headers
     (snd (VCRHTTPResponse_init C 0
        (\<lambda>_. \<lparr>status_code = 200, status_message = ''OK'',
               rr_headers = [(''Transfer-Encoding'', [''chunked'']),
                             (''transfer-encoding'', [''chunked''])],
               body_string = ''hello''\<rparr>)) 0)) = [''transfer-encoding''] \<and>
   map_sum id (\<lambda>r. fst (read None r))
     (fst (VCRHTTPResponse_init C 0
        (\<lambda>_. \<lparr>status_code = 200, status_message = ''OK'',
               rr_headers = [(''Transfer-Encoding'', [''chunked'']),
                             (''transfer-encoding'', [''chunked''])],
               body_string = ''hello''\<rparr>))) = Inr ''hello''"
  by (simp add: VCRHTTPResponse_init_def strip_transfer_encoding_def te_key_def dict_keys_def
      upper_def upper_char_def parse_headers_def header_string_def transform_proxy_headers_def
      lower_def lower_char_def read_def bytesio_read_def Let_def)

section \<open>C6: what replay does to the recorded response\<close>

text \<open>
  C6 as the spec states it fails: building the stub response from a recording that has
  a transfer-encoding header deletes that header from the recording itself.
\<close>

theorem VCRHTTPResponse_init_mutates_recording_counterexample:
  "snd (VCRHTTPResponse_init block_compat 0
      (\<lambda>_. \<lparr>status_code = 200, status_message = ''OK'',
             rr_headers = [(''Transfer-Encoding'', [''chunked'']), (''Server'', [''nginx''])],
             body_string = ''hello''\<rparr>)) 0 =
     \<lparr>status_code = 200, status_message = ''OK'',
      rr_headers = [(''Server'', [''nginx''])],
      body_string = ''hello''\<rparr> \<and>
   snd (VCRHTTPResponse_init block_compat 0
      (\<lambda>_. \<lparr>status_code = 200, status_message = ''OK'',
             rr_headers = [(''Transfer-Encoding'', [''chunked'']), (''Server'', [''nginx''])],
             body_string = ''hello''\<rparr>)) 0 \<noteq>
     \<lparr>status_code = 200, status_message = ''OK'',
      rr_headers = [(''Transfer-Encoding'', [''chunked'']), (''Server'', [''nginx''])],
      body_string = ''hello''\<rparr>"
  by (simp add: VCRHTTPResponse_init_store strip_transfer_encoding_def te_key_def
      dict_keys_def upper_def upper_char_def)

text \<open>
  C6, as the code has it. Building the stub response changes the recording it is built
  from at most in its header mapping, and there only by deleting entries whose name is
  transfer-encoding in some letter case: its status, its body and its header entries
  under every other name stay as they were, in their order, nothing is added, and a
  recording without such a header is not changed at all. Every other recording in the
  store stays as it was. After that, no sequence of reads, closes and header queries
  on the stub response changes the store.
\<close>

theorem replay_changes_only_transfer_encoding:
  assumes "VCRHTTPResponse_init C a \<sigma> = (res, \<sigma>')"
  shows "status_code (\<sigma>' a) = status_code (\<sigma> a) \<and>
         status_message (\<sigma>' a) = status_message (\<sigma> a) \<and>
         body_string (\<sigma>' a) = body_string (\<sigma> a) \<and>
         filter (\<lambda>kv. upper (fst kv) \<noteq> ''TRANSFER-ENCODING'') (rr_headers (\<sigma>' a)) =
           filter (\<lambda>kv. upper (fst kv) \<noteq> ''TRANSFER-ENCODING'') (rr_headers (\<sigma> a)) \<and>
         set (rr_headers (\<sigma>' a)) \<subseteq> set (rr_headers (\<sigma> a)) \<and>
         (te_key (rr_headers (\<sigma> a)) = [] \<longrightarrow> \<sigma>' = \<sigma>) \<and>
         (\<forall>b. b \<noteq> a \<longrightarrow> \<sigma>' b = \<sigma> b) \<and>
         snd (fold (replay_step C) ops (self, \<sigma>')) = \<sigma>'"
proof -
  have "\<sigma>' = snd (VCRHTTPResponse_init C a \<sigma>)"
    using assms by simp
  then have s: "\<sigma>' = \<sigma>(a := (\<sigma> a)\<lparr>rr_headers := strip_transfer_encoding (rr_headers (\<sigma> a))\<rparr>)"
    by (simp only: VCRHTTPResponse_init_store)
  have same: "te_key (rr_headers (\<sigma> a)) = [] \<longrightarrow> \<sigma>' = \<sigma>"
    by (auto simp: s strip_transfer_encoding_none)
  have others: "filter (\<lambda>kv. upper (fst kv) \<noteq> ''TRANSFER-ENCODING'') (rr_headers (\<sigma>' a)) =
      filter (\<lambda>kv. upper (fst kv) \<noteq> ''TRANSFER-ENCODING'') (rr_headers (\<sigma> a))"
    by (simp add: s strip_transfer_encoding_others)
  have sub: "set (rr_headers (\<sigma>' a)) \<subseteq> set (rr_headers (\<sigma> a))"
    by (simp add: s strip_transfer_encoding_subset)
  have rest: "status_code (\<sigma>' a) = status_code (\<sigma> a) \<and>
      status_message (\<sigma>' a) = status_message (\<sigma> a) \<and>
      body_string (\<sigma>' a) = body_string (\<sigma> a) \<and> (\<forall>b. b \<noteq> a \<longrightarrow> \<sigma>' b = \<sigma> b)"
    by (simp add: s)
  have ops: "snd (fold (replay_step C) ops (self, \<sigma>')) = \<sigma>'"
    by (simp add: fold_replay_step_store)
  from same others sub rest ops show ?thesis by blast
qed

theorem replay_changes_only_transfer_encoding_witness:
  "body_string (snd (VCRHTTPResponse_init block_compat 0
      (\<lambda>_. \<lparr>status_code = 200, status_message = ''OK'',
             rr_headers = [(''Transfer-Encoding'', [''chunked'']), (''Server'', [''nginx''])],
             body_string = ''hello''\<rparr>)) 0) = ''hello'' \<and>
   rr_headers (snd (VCRHTTPResponse_init block_compat 0
      (\<lambda>_. \<lparr>status_code = 200, status_message = ''OK'',
             rr_headers = [(''Transfer-Encoding'', [''chunked'']), (''Server'', [''nginx''])],
             body_string = ''hello''\<rparr>)) 0) = [(''Server'', [''nginx''])]"
  using replay_changes_only_transfer_encoding
    [OF prod.collapse [symmetric], of block_compat 0
      "\<lambda>_. \<lparr>status_code = 200, status_message = ''OK'',
             rr_headers = [(''Transfer-Encoding'', [''chunked'']), (''Server'', [''nginx''])],
             body_string = ''hello''\<rparr>" "[Read None, Getheaders, Close]"
      "\<lparr>recorded_response = 0, reason = ''OK'', status = 200, code = 200, version = None,
        u_content = \<lparr>buf = ''hello'', pos = 0\<rparr>, u_closed = False,
        headers = ''Server:nginx'' @ CRLF, msg = ''Server:nginx'' @ CRLF,
        length_attr = None\<rparr>"]
  by (simp add: VCRHTTPResponse_init_store strip_transfer_encoding_def te_key_def
      dict_keys_def upper_def upper_char_def)

section \<open>C7: URI resolution through a tunnel\<close>

text \<open>
  C7. After a tunnel setup that returned, to a host \<open>h\<close> that is not the empty string,
  the URI of a path \<open>p\<close> is scheme, \<open>://\<close>, \<open>h\<close>, the port suffix and \<open>p\<close>. For an
  https connection, the host \<open>example.com\<close> and the port 9443 this is
  \<open>https://example.com:9443\<close> followed by \<open>p\<close>. When the port given is the default of
  the protocol (443 for https, 80 for http), or none was given, there is no port suffix.
\<close>

theorem set_tunnel_then_u_uri:
  assumes "set_tunnel E h prt hdrs w = (Inr u, w')" and "h \<noteq> []"
  shows "(u_protocol w = Https \<and> h = ''example.com'' \<and> prt = Some 9443 \<longrightarrow>
            u_uri p w' = Inr (''https://example.com:9443'' @ p)) \<and>
         (prt = None \<or> prt = Some (default_port (u_protocol w)) \<longrightarrow>
            u_uri p w' = Inr (protocol_name (u_protocol w) @ ''://'' @ h @ p)) \<and>
         (prt = Some 443 \<and> u_protocol w = Https \<longrightarrow> u_uri p w' = Inr (''https://'' @ h @ p)) \<and>
         (prt = Some 80 \<and> u_protocol w = Http \<longrightarrow> u_uri p w' = Inr (''http://'' @ h @ p))"
proof -
  from set_tunnel_result [OF assms(1)]
  have w': "u_proxied w'" "u_proxied_host w' = Some h"
    "u_proxied_port w' = Some (port_or prt (default_port (u_protocol w)))"
    "u_protocol w' = u_protocol w"
    by simp_all
  have uri: "u_uri p w' =
      Inr (protocol_name (u_protocol w) @ ''://'' @ h @
           (if port_or prt (default_port (u_protocol w)) = default_port (u_protocol w) then []
            else '':'' @ str_int (port_or prt (default_port (u_protocol w)))) @ p)"
    using u_uri_tunnel [OF w'(1) w'(2) assms(2) w'(3), of p] by (simp add: w'(4))
  have a: "u_protocol w = Https \<and> h = ''example.com'' \<and> prt = Some 9443 \<longrightarrow>
      u_uri p w' = Inr (''https://example.com:9443'' @ p)"
    by (simp add: uri port_or_def str_int_9443)
  have b: "prt = None \<or> prt = Some (default_port (u_protocol w)) \<longrightarrow>
      u_uri p w' = Inr (protocol_name (u_protocol w) @ ''://'' @ h @ p)"
    by (auto simp: uri port_or_def)
  have c: "prt = Some 443 \<and> u_protocol w = Https \<longrightarrow> u_uri p w' = Inr (''https://'' @ h @ p)"
    by (simp add: uri port_or_def)
  have d: "prt = Some 80 \<and> u_protocol w = Http \<longrightarrow> u_uri p w' = Inr (''http://'' @ h @ p)"
    by (simp add: uri port_or_def)
  from a b c d show ?thesis by blast
qed

theorem set_tunnel_then_u_uri_witness:
  "fst (set_tunnel example_env ''example.com'' (Some 9443) None proxied_world) = Inr () \<and>
   u_uri ''/widgets''
     (snd (set_tunnel example_env ''example.com'' (Some 9443) None proxied_world)) =
     Inr ''https://example.com:9443/widgets''"
proof -
  have run: "fst (set_tunnel example_env ''example.com'' (Some 9443) None proxied_world) = Inr ()"
    by (simp add: set_tunnel_def then_do_def setattr_def on_real_def proxied_world_def
        example_world_def example_env_def)
  then have st: "set_tunnel example_env ''example.com'' (Some 9443) None proxied_world =
      (Inr (), snd (set_tunnel example_env ''example.com'' (Some 9443) None proxied_world))"
    by (metis prod.collapse)
  have ne: "''example.com'' \<noteq> []" by simp
  have https: "u_protocol proxied_world = Https"
    by (simp add: proxied_world_def example_world_def)
  from set_tunnel_then_u_uri [OF st ne, of "''/widgets''"] https run
  show ?thesis by simp
qed

section \<open>C8: from the absolute URI back to the path\<close>

text \<open>
  C8 as the spec states it fails. The prefix is removed where it first occurs, which
  need not be the left end: on a connection to \<open>api.test\<close>, port 443, a URI of another
  host that carries \<open>https://api.test\<close> in its query loses it there. And the port of
  the prefix is not always the real connection's own: on a proxy-aware connection to
  the proxy \<open>proxy.test\<close>, port 3128, with a tunnel to port 9443, the prefix is
  \<open>https://proxy.test:9443\<close>.
\<close>

theorem u_url_counterexample:
  "url_prefix example_world = Inr ''https://api.test'' \<and>
   \<not> prefix ''https://api.test'' ''https://evil.test/?u=https://api.test/foo'' \<and>
   u_url ''https://evil.test/?u=https://api.test/foo'' example_world =
     Inr ''https://evil.test/?u=/foo'' \<and>
   url_prefix (proxied_world\<lparr>u_proxied_host := Some ''example.com'',
                            u_proxied_port := Some 9443\<rparr>) =
     Inr ''https://proxy.test:9443''"
  by (simp add: u_url_def url_prefix_def u_port_postfix_def example_world_def
      proxied_world_def format_port_def str_int_9443)

text \<open>
  C8, as the code has it. The prefix is the scheme, \<open>://\<close>, the host of the real
  connection and the port suffix; the suffix comes from the real connection's own port
  when the connection is not proxy-aware and from the tunnel port when it is. A URI
  that begins with the prefix loses it, once, and keeps the rest byte for byte; a URI
  in which the prefix does not occur is returned as it is. With the real host
  \<open>api.test\<close> on the default port of a connection that is not proxy-aware,
  \<open>https://api.test/foo?x=1\<close> becomes \<open>/foo?x=1\<close>.
\<close>

theorem u_url_strips_prefix:
  assumes "url_prefix w = Inr pfx"
  shows "u_url (pfx @ rest) w = Inr rest \<and>
         (\<not> sublist pfx absolute \<longrightarrow> u_url absolute w = Inr absolute) \<and>
         (\<exists>rc. real_connection w = Some rc \<and>
            pfx = protocol_name (u_protocol w) @ ''://'' @ host rc @
                  (if u_proxied w
                   then (if u_proxied_port w = Some (default_port (u_protocol w)) then []
                         else '':'' @ format_port (u_proxied_port w))
                   else (if port rc = default_port (u_protocol w) then []
                         else '':'' @ str_int (port rc)))) \<and>
         (u_protocol w = Https \<and> \<not> u_proxied w \<and> pfx = ''https://api.test'' \<longrightarrow>
            u_url ''https://api.test/foo?x=1'' w = Inr ''/foo?x=1'')"
proof -
  have url: "u_url x w = Inr (replace_first pfx [] x)" for x
    using assms by (simp add: u_url_def)
  have a: "u_url (pfx @ rest) w = Inr rest"
    by (simp add: url replace_first_at_start)
  have b: "\<not> sublist pfx absolute \<longrightarrow> u_url absolute w = Inr absolute"
    by (simp add: url replace_first_absent)
  have d: "\<exists>rc. real_connection w = Some rc \<and>
      pfx = protocol_name (u_protocol w) @ ''://'' @ host rc @
            (if u_proxied w
             then (if u_proxied_port w = Some (default_port (u_protocol w)) then []
                   else '':'' @ format_port (u_proxied_port w))
             else (if port rc = default_port (u_protocol w) then []
                   else '':'' @ str_int (port rc)))"
    using assms
    by (auto simp: url_prefix_def u_port_postfix_def format_port_def
        split: option.splits sum.splits if_splits)
  have e: "u_protocol w = Https \<and> \<not> u_proxied w \<and> pfx = ''https://api.test'' \<longrightarrow>
      u_url ''https://api.test/foo?x=1'' w = Inr ''/foo?x=1''"
    using replace_first_at_start [of "''https://api.test''" "[]" "''/foo?x=1''"]
    by (auto simp: url)
  from a b d e show ?thesis by blast
qed

theorem u_url_strips_prefix_witness:
  "url_prefix example_world = Inr ''https://api.test'' \<and>
   u_url ''https://api.test/foo?x=1'' example_world = Inr ''/foo?x=1''"
proof -
  have p: "url_prefix example_world = Inr ''https://api.test''"
    by (simp add: url_prefix_def u_port_postfix_def example_world_def)
  have w: "u_protocol example_world = Https \<and> \<not> u_proxied example_world"
    by (simp add: example_world_def)
  from u_url_strips_prefix [OF p, of "''/foo?x=1''" "''/other''"] p w
  show ?thesis by simp
qed

section \<open>C9: start and start-incremental\<close>

text \<open>
  C9 as the spec states it fails: \<^verbatim>\<open>request\<close> with no body stores an absent body,
  \<^verbatim>\<open>putrequest\<close> stores the empty string.
\<close>

theorem putrequest_request_counterexample:
  "u_vcr_request (snd (putrequest example_env ''GET'' ''/widgets'' example_world)) =
     Some \<lparr>req_method = ''GET'', uri = ''https://api.test/widgets'', body = Some [], headers = []\<rparr> \<and>
   u_vcr_request (snd (request example_env ''GET'' ''/widgets'' None None example_world)) =
     Some \<lparr>req_method = ''GET'', uri = ''https://api.test/widgets'', body = None, headers = []\<rparr> \<and>
   u_vcr_request (snd (putrequest example_env ''GET'' ''/widgets'' example_world)) \<noteq>
   u_vcr_request (snd (request example_env ''GET'' ''/widgets'' None None example_world))"
  by (simp add: putrequest_def request_def u_uri_def u_port_postfix_def host_falsy_def
      transform_proxy_headers_empty setattr_def on_real_def example_world_def example_env_def)

text \<open>
  C9, as the code has it. \<^verbatim>\<open>putrequest\<close> does what \<^verbatim>\<open>request\<close> does with the same
  method and path, the empty string as body and no headers (or an empty header
  mapping): the two calls end in the same state with the same outcome. With the body
  left out, \<^verbatim>\<open>request\<close> assigns a Request whose body is absent, \<^verbatim>\<open>putrequest\<close> one
  whose body is the empty string.
\<close>

theorem putrequest_is_request_with_empty_body:
  "putrequest E mth url w = request E mth url (Some []) None w \<and>
   putrequest E mth url w = request E mth url (Some []) (Some []) w \<and>
   (u_uri url w = Inr u \<longrightarrow>
      putrequest E mth url w =
        setattr E (Set_vcr_request \<lparr>req_method = mth, uri = u, body = Some [], headers = []\<rparr>) w \<and>
      request E mth url None None w =
        setattr E (Set_vcr_request \<lparr>req_method = mth, uri = u, body = None, headers = []\<rparr>) w)"
proof -
  have none: "request E mth url (Some []) None w = putrequest E mth url w"
    by (simp add: putrequest_def request_def transform_proxy_headers_empty split: sum.splits)
  have empty: "request E mth url (Some []) (Some []) w = putrequest E mth url w"
    by (simp add: putrequest_def request_def transform_proxy_headers_empty split: sum.splits)
  have resolved: "putrequest E mth url w =
        setattr E (Set_vcr_request \<lparr>req_method = mth, uri = u, body = Some [], headers = []\<rparr>) w \<and>
      request E mth url None None w =
        setattr E (Set_vcr_request \<lparr>req_method = mth, uri = u, body = None, headers = []\<rparr>) w"
    if "u_uri url w = Inr u"
    using that by (simp add: putrequest_def request_def transform_proxy_headers_empty)
  from none empty resolved show ?thesis by simp
qed

theorem putrequest_is_request_with_empty_body_witness:
  "u_uri ''/widgets'' example_world = Inr ''https://api.test/widgets'' \<and>
   putrequest example_env ''GET'' ''/widgets'' example_world =
     request example_env ''GET'' ''/widgets'' (Some []) None example_world \<and>
   u_vcr_request (snd (request example_env ''GET'' ''/widgets'' (Some []) None example_world)) =
     Some \<lparr>req_method = ''GET'', uri = ''https://api.test/widgets'', body = Some [], headers = []\<rparr>"
proof -
  have u: "u_uri ''/widgets'' example_world = Inr ''https://api.test/widgets''"
    by (simp add: u_uri_def u_port_postfix_def host_falsy_def example_world_def)
  have s: "u_vcr_request (snd (setattr example_env
      (Set_vcr_request \<lparr>req_method = ''GET'', uri = ''https://api.test/widgets'', body = Some [],
         headers = []\<rparr>) example_world)) =
     Some \<lparr>req_method = ''GET'', uri = ''https://api.test/widgets'', body = Some [], headers = []\<rparr>"
    by (simp add: setattr_def on_real_def example_world_def example_env_def)
  note T = putrequest_is_request_with_empty_body
    [of example_env "''GET''" "''/widgets''" example_world "''https://api.test/widgets''"]
  from T have e1: "putrequest example_env ''GET'' ''/widgets'' example_world =
      request example_env ''GET'' ''/widgets'' (Some []) None example_world"
    by blast
  from T u have e2: "putrequest example_env ''GET'' ''/widgets'' example_world =
      setattr example_env
        (Set_vcr_request \<lparr>req_method = ''GET'', uri = ''https://api.test/widgets'', body = Some [],
           headers = []\<rparr>) example_world"
    by blast
  have "u_vcr_request (snd (request example_env ''GET'' ''/widgets'' (Some []) None
      example_world)) =
     Some \<lparr>req_method = ''GET'', uri = ''https://api.test/widgets'', body = Some [], headers = []\<rparr>"
    unfolding e1 [symmetric] e2 by (rule s)
  with u e1 show ?thesis by blast
qed

section \<open>C5: a header added twice\<close>




section \<open>C1: replay leaves the real connection alone\<close>

text \<open>
  C1. When the cassette is write-protected, \<^verbatim>\<open>connect\<close> returns and leaves the whole
  state as it was. When the cassette can play a response for the Request in progress,
  \<^verbatim>\<open>connect\<close> does so too, and \<^verbatim>\<open>getresponse\<close> returns the stub response built from
  the recording that the cassette plays: its status, reason and body are the recorded
  ones, and neither the real connection nor the log of the calls on it has changed.
\<close>

theorem replay_leaves_real_connection_alone:
  "(write_protected K (cassette_state w) \<longrightarrow> connect E K w = (Inr (), w)) \<and>
   (u_vcr_request w = Some r \<and> can_play_response_for K (cassette_state w) r \<longrightarrow>
      connect E K w = (Inr (), w) \<and>
      getresponse C E K w =
        new_VCRHTTPResponse C (fst (play_response K (cassette_state w) r))
          (w\<lparr>cassette_state := snd (play_response K (cassette_state w) r)\<rparr>) \<and>
      real_calls (snd (getresponse C E K w)) = real_calls w \<and>
      real_connection (snd (getresponse C E K w)) = real_connection w \<and>
      (\<exists>resp. fst (getresponse C E K w) = Inr resp \<and>
         recorded_response resp = fst (play_response K (cassette_state w) r) \<and>
         status resp = status_code (heap w (fst (play_response K (cassette_state w) r))) \<and>
         reason resp = status_message (heap w (fst (play_response K (cassette_state w) r))) \<and>
         fst (read None resp) =
           body_string (heap w (fst (play_response K (cassette_state w) r)))))"
proof -
  have wp: "write_protected K (cassette_state w) \<longrightarrow> connect E K w = (Inr (), w)"
    by (simp add: connect_def)
  have play: "connect E K w = (Inr (), w) \<and>
      getresponse C E K w =
        new_VCRHTTPResponse C (fst (play_response K (cassette_state w) r))
          (w\<lparr>cassette_state := snd (play_response K (cassette_state w) r)\<rparr>) \<and>
      real_calls (snd (getresponse C E K w)) = real_calls w \<and>
      real_connection (snd (getresponse C E K w)) = real_connection w \<and>
      (\<exists>resp. fst (getresponse C E K w) = Inr resp \<and>
         recorded_response resp = fst (play_response K (cassette_state w) r) \<and>
         status resp = status_code (heap w (fst (play_response K (cassette_state w) r))) \<and>
         reason resp = status_message (heap w (fst (play_response K (cassette_state w) r))) \<and>
         fst (read None resp) =
           body_string (heap w (fst (play_response K (cassette_state w) r))))"
    if req: "u_vcr_request w = Some r" and can: "can_play_response_for K (cassette_state w) r"
  proof -
    let ?a = "fst (play_response K (cassette_state w) r)"
    let ?w = "w\<lparr>cassette_state := snd (play_response K (cassette_state w) r)\<rparr>"
    have c: "connect E K w = (Inr (), w)"
      using req can by (simp add: connect_def)
    have g: "getresponse C E K w = new_VCRHTTPResponse C ?a ?w"
      using req can by (simp add: getresponse_def split: prod.splits)
    have calls: "real_calls (snd (getresponse C E K w)) = real_calls w"
      and real: "real_connection (snd (getresponse C E K w)) = real_connection w"
      using new_VCRHTTPResponse_frame [of C ?a ?w] by (simp_all add: g)
    obtain resp where init: "fst (VCRHTTPResponse_init C ?a (heap w)) = Inr resp"
      using VCRHTTPResponse_init_total by blast
    then have fst_g: "fst (getresponse C E K w) = Inr resp"
      by (simp add: g new_VCRHTTPResponse_fst)
    have fields: "recorded_response resp = ?a \<and> status resp = status_code (heap w ?a) \<and>
        reason resp = status_message (heap w ?a)"
      using init by (auto simp: VCRHTTPResponse_init_def Let_def split: sum.splits)
    have body: "fst (read None resp) = body_string (heap w ?a)"
      using init by (rule read_all_recorded_body)
    from c g calls real fst_g fields body show ?thesis by blast
  qed
  from wp play show ?thesis by blast
qed

theorem replay_leaves_real_connection_alone_witness:
  "connect example_env (example_cassette False)
     (example_world\<lparr>u_vcr_request :=
          Some \<lparr>req_method = ''GET'', uri = ''https://api.test/widgets'', body = None, headers = []\<rparr>,
        cassette_state :=
          [(\<lparr>req_method = ''GET'', uri = ''https://api.test/widgets'', body = None, headers = []\<rparr>, 7)]\<rparr>) =
     (Inr (),
      example_world\<lparr>u_vcr_request :=
          Some \<lparr>req_method = ''GET'', uri = ''https://api.test/widgets'', body = None, headers = []\<rparr>,
        cassette_state :=
          [(\<lparr>req_method = ''GET'', uri = ''https://api.test/widgets'', body = None, headers = []\<rparr>, 7)]\<rparr>) \<and>
   real_calls (snd (getresponse block_compat example_env (example_cassette False)
     (example_world\<lparr>u_vcr_request :=
          Some \<lparr>req_method = ''GET'', uri = ''https://api.test/widgets'', body = None, headers = []\<rparr>,
        cassette_state :=
          [(\<lparr>req_method = ''GET'', uri = ''https://api.test/widgets'', body = None, headers = []\<rparr>, 7)]\<rparr>))) = []"
proof -
  let ?r = "\<lparr>req_method = ''GET'', uri = ''https://api.test/widgets'', body = None, headers = []\<rparr>"
  let ?w = "example_world\<lparr>u_vcr_request := Some ?r, cassette_state := [(?r, 7)]\<rparr>"
  have req: "u_vcr_request ?w = Some ?r" by simp
  have can: "can_play_response_for (example_cassette False) (cassette_state ?w) ?r"
    by (simp add: example_cassette_def)
  have calls: "real_calls ?w = []" by (simp add: example_world_def)
  note T = replay_leaves_real_connection_alone
    [of "example_cassette False" ?w example_env ?r block_compat]
  from T req can have c: "connect example_env (example_cassette False) ?w = (Inr (), ?w)"
    by blast
  from T req can
  have k: "real_calls (snd (getresponse block_compat example_env (example_cassette False) ?w)) =
      real_calls ?w"
    by blast
  from c k calls show ?thesis by simp
qed

section \<open>C2: the cannot-record fault\<close>

text \<open>
  C2. \<^verbatim>\<open>getresponse\<close> raises \<^verbatim>\<open>CannotOverwriteExistingCassetteException\<close> if and only
  if there is a Request in progress that the cassette cannot play, the cassette is
  write-protected and its request filter accepts the Request. The message of the fault
  then carries the Request, the path of the cassette and the record mode, and the
  state, with the real connection and the log of the calls on it, is as it was.
\<close>

theorem getresponse_cannot_overwrite_iff:
  "((\<exists>m. fst (getresponse C E K w) = Inl (CannotOverwriteExistingCassetteException m)) \<longleftrightarrow>
      (\<exists>r. u_vcr_request w = Some r \<and>
           \<not> can_play_response_for K (cassette_state w) r \<and>
           write_protected K (cassette_state w) \<and>
           filter_request K (cassette_state w) r)) \<and>
   (u_vcr_request w = Some r \<and>
    \<not> can_play_response_for K (cassette_state w) r \<and>
    write_protected K (cassette_state w) \<and>
    filter_request K (cassette_state w) r \<longrightarrow>
      getresponse C E K w =
        (Inl (CannotOverwriteExistingCassetteException
           (''No match for the request ('' @ repr_request K r @ '') was found. Can'' @
            [CHR 0x27] @ ''t overwrite existing cassette ('' @
            repr_str K (u_path K (cassette_state w)) @
            '') in your current record mode ('' @
            repr_str K (record_mode K (cassette_state w)) @ '').'')), w))"
proof -
  have raised: "getresponse C E K w =
      (Inl (CannotOverwriteExistingCassetteException
         (cannot_overwrite_message K (cassette_state w) r')), w)"
    if "u_vcr_request w = Some r'" "\<not> can_play_response_for K (cassette_state w) r'"
      "write_protected K (cassette_state w)" "filter_request K (cassette_state w) r'" for r'
    using that by (simp add: getresponse_def)
  have only: "\<exists>r. u_vcr_request w = Some r \<and>
           \<not> can_play_response_for K (cassette_state w) r \<and>
           write_protected K (cassette_state w) \<and>
           filter_request K (cassette_state w) r"
    if m: "fst (getresponse C E K w) = Inl (CannotOverwriteExistingCassetteException m)" for m
  proof (cases "u_vcr_request w")
    case None
    with m show ?thesis by (simp add: getresponse_def)
  next
    case (Some r')
    show ?thesis
    proof (cases "can_play_response_for K (cassette_state w) r'")
      case True
      obtain resp where "fst (new_VCRHTTPResponse C (fst (play_response K (cassette_state w) r'))
          (w\<lparr>cassette_state := snd (play_response K (cassette_state w) r')\<rparr>)) = Inr resp"
        using new_VCRHTTPResponse_returns by blast
      with m Some True show ?thesis
        by (simp add: getresponse_def split: prod.splits)
    next
      case False
      show ?thesis
      proof (cases "write_protected K (cassette_state w) \<and> filter_request K (cassette_state w) r'")
        case True
        with Some False show ?thesis by simp
      next
        case no: False
        have "getresponse C E K w = send_live C E K r' w"
          using Some False no by (auto simp: getresponse_def)
        with m send_live_not_cannot_overwrite [of C E K r' w m] show ?thesis by simp
      qed
    qed
  qed
  have iff: "(\<exists>m. fst (getresponse C E K w) = Inl (CannotOverwriteExistingCassetteException m)) \<longleftrightarrow>
      (\<exists>r. u_vcr_request w = Some r \<and>
           \<not> can_play_response_for K (cassette_state w) r \<and>
           write_protected K (cassette_state w) \<and>
           filter_request K (cassette_state w) r)"
  proof
    assume "\<exists>m. fst (getresponse C E K w) = Inl (CannotOverwriteExistingCassetteException m)"
    then show "\<exists>r. u_vcr_request w = Some r \<and>
           \<not> can_play_response_for K (cassette_state w) r \<and>
           write_protected K (cassette_state w) \<and>
           filter_request K (cassette_state w) r"
      using only by blast
  next
    assume "\<exists>r. u_vcr_request w = Some r \<and>
           \<not> can_play_response_for K (cassette_state w) r \<and>
           write_protected K (cassette_state w) \<and>
           filter_request K (cassette_state w) r"
    then obtain r' where "u_vcr_request w = Some r'"
      "\<not> can_play_response_for K (cassette_state w) r'"
      "write_protected K (cassette_state w)" "filter_request K (cassette_state w) r'"
      by blast
    from raised [OF this]
    show "\<exists>m. fst (getresponse C E K w) = Inl (CannotOverwriteExistingCassetteException m)"
      by simp
  qed
  have msg: "u_vcr_request w = Some r \<and>
    \<not> can_play_response_for K (cassette_state w) r \<and>
    write_protected K (cassette_state w) \<and>
    filter_request K (cassette_state w) r \<longrightarrow>
      getresponse C E K w =
        (Inl (CannotOverwriteExistingCassetteException
           (''No match for the request ('' @ repr_request K r @ '') was found. Can'' @
            [CHR 0x27] @ ''t overwrite existing cassette ('' @
            repr_str K (u_path K (cassette_state w)) @
            '') in your current record mode ('' @
            repr_str K (record_mode K (cassette_state w)) @ '').'')), w)"
    using raised [of r] by (simp add: cannot_overwrite_message_def)
  from iff msg show ?thesis by blast
qed

theorem getresponse_cannot_overwrite_iff_witness:
  "fst (getresponse block_compat example_env (example_cassette True)
     (example_world\<lparr>u_vcr_request :=
        Some \<lparr>req_method = ''GET'', uri = ''https://api.test/widgets'', body = None,
              headers = []\<rparr>\<rparr>)) =
     Inl (CannotOverwriteExistingCassetteException
       (''No match for the request (<Request (GET) https://api.test/widgets>) was found. Can'' @
        [CHR 0x27] @ ''t overwrite existing cassette ('' @ [CHR 0x27] @ ''widgets.yaml'' @
        [CHR 0x27] @ '') in your current record mode ('' @ [CHR 0x27] @ ''none'' @ [CHR 0x27] @
        '').'')) \<and>
   real_calls (snd (getresponse block_compat example_env (example_cassette True)
     (example_world\<lparr>u_vcr_request :=
        Some \<lparr>req_method = ''GET'', uri = ''https://api.test/widgets'', body = None,
              headers = []\<rparr>\<rparr>))) = []"
proof -
  let ?r = "\<lparr>req_method = ''GET'', uri = ''https://api.test/widgets'', body = None, headers = []\<rparr>"
  let ?w = "example_world\<lparr>u_vcr_request := Some ?r\<rparr>"
  have hyp: "u_vcr_request ?w = Some ?r \<and>
      \<not> can_play_response_for (example_cassette True) (cassette_state ?w) ?r \<and>
      write_protected (example_cassette True) (cassette_state ?w) \<and>
      filter_request (example_cassette True) (cassette_state ?w) ?r"
    by (simp add: example_cassette_def example_world_def)
  note T = getresponse_cannot_overwrite_iff
    [of block_compat example_env "example_cassette True" ?w ?r]
  from T hyp have g: "getresponse block_compat example_env (example_cassette True) ?w =
      (Inl (CannotOverwriteExistingCassetteException
         (''No match for the request ('' @ repr_request (example_cassette True) ?r @
          '') was found. Can'' @ [CHR 0x27] @ ''t overwrite existing cassette ('' @
          repr_str (example_cassette True) (u_path (example_cassette True) (cassette_state ?w)) @
          '') in your current record mode ('' @
          repr_str (example_cassette True)
            (record_mode (example_cassette True) (cassette_state ?w)) @ '').'')), ?w)"
    by blast
  show ?thesis
    unfolding g by (simp add: example_cassette_def example_world_def)
qed

section \<open>C10: assignments are passed on to the real connection\<close>

text \<open>
  C10. Once the proxy has its real connection, an assignment to any attribute of the
  proxy is first performed on the real connection, under the same name and with the
  same value, and logged as such. If the real connection takes it, or refuses it with
  an \<^verbatim>\<open>AttributeError\<close>, the attribute of the proxy is set next; any other exception
  of the real connection's setter escapes, and the attribute of the proxy is not set.
  The fields the proxy keeps for itself go the same way: \<^verbatim>\<open>_vcr_request\<close> in
  \<^verbatim>\<open>putrequest\<close>, \<^verbatim>\<open>_proxied\<close>, \<^verbatim>\<open>_proxied_host\<close> and \<^verbatim>\<open>_proxied_port\<close> in the
  constructor, and the latter two again in \<^verbatim>\<open>set_tunnel\<close>.
\<close>

theorem setattr_propagates_to_real_connection:
  assumes "real_connection w = Some rc"
  shows "(rc_setattr E (attr_name a) (attr_value a) rc = (Inr (), rc') \<or>
          rc_setattr E (attr_name a) (attr_value a) rc = (Inl ForeignAttributeError, rc') \<longrightarrow>
            setattr E a w =
              super_setattr E a
                (w\<lparr>real_connection := Some rc',
                   real_calls := real_calls w @ [R_setattr (attr_name a) (attr_value a)]\<rparr>)) \<and>
         (rc_setattr E (attr_name a) (attr_value a) rc = (Inl (ForeignError e), rc') \<longrightarrow>
            setattr E a w =
              (Inl (Foreign e),
               w\<lparr>real_connection := Some rc',
                  real_calls := real_calls w @ [R_setattr (attr_name a) (attr_value a)]\<rparr>)) \<and>
         attr_name (Set_vcr_request r) = ''_vcr_request'' \<and>
         attr_name (Set_proxied b) = ''_proxied'' \<and>
         attr_name (Set_proxied_host h) = ''_proxied_host'' \<and>
         attr_name (Set_proxied_port p) = ''_proxied_port'' \<and>
         (u_uri url w = Inr u \<longrightarrow>
            putrequest E mth url w =
              setattr E (Set_vcr_request
                \<lparr>req_method = mth, uri = u, body = Some [], headers = []\<rparr>) w) \<and>
         (set_tunnel E th tp hdrs w = (Inr (), w') \<longrightarrow>
            real_calls w' = real_calls w @
              [R_setattr ''_proxied_host'' (PStr th),
               R_setattr ''_proxied_port'' (PInt (port_or tp (default_port (u_protocol w)))),
               R_set_tunnel th tp hdrs]) \<and>
         (VCRConnection_init E environ proto ch cp w0 = (Inr (), w') \<longrightarrow>
            real_calls w' = real_calls w0 @
              [R_new,
               R_setattr ''_proxied'' (PBool (protocol_name proto \<in> set (proxied_protocols environ))),
               R_setattr ''_proxied_host'' PNone,
               R_setattr ''_proxied_port'' PNone])"
proof -
  have a: "rc_setattr E (attr_name a) (attr_value a) rc = (Inr (), rc') \<or>
          rc_setattr E (attr_name a) (attr_value a) rc = (Inl ForeignAttributeError, rc') \<longrightarrow>
            setattr E a w =
              super_setattr E a
                (w\<lparr>real_connection := Some rc',
                   real_calls := real_calls w @ [R_setattr (attr_name a) (attr_value a)]\<rparr>)"
    by (auto simp: setattr_def on_real_Some [OF assms])
  have b: "rc_setattr E (attr_name a) (attr_value a) rc = (Inl (ForeignError e), rc') \<longrightarrow>
            setattr E a w =
              (Inl (Foreign e),
               w\<lparr>real_connection := Some rc',
                  real_calls := real_calls w @ [R_setattr (attr_name a) (attr_value a)]\<rparr>)"
    by (auto simp: setattr_def on_real_Some [OF assms])
  have c: "u_uri url w = Inr u \<longrightarrow>
            putrequest E mth url w =
              setattr E (Set_vcr_request
                \<lparr>req_method = mth, uri = u, body = Some [], headers = []\<rparr>) w"
    by (simp add: putrequest_def)
  have d: "set_tunnel E th tp hdrs w = (Inr (), w') \<longrightarrow>
            real_calls w' = real_calls w @
              [R_setattr ''_proxied_host'' (PStr th),
               R_setattr ''_proxied_port'' (PInt (port_or tp (default_port (u_protocol w)))),
               R_set_tunnel th tp hdrs]"
    by (rule impI) (rule set_tunnel_calls)
  have e: "VCRConnection_init E environ proto ch cp w0 = (Inr (), w') \<longrightarrow>
            real_calls w' = real_calls w0 @
              [R_new,
               R_setattr ''_proxied'' (PBool (protocol_name proto \<in> set (proxied_protocols environ))),
               R_setattr ''_proxied_host'' PNone,
               R_setattr ''_proxied_port'' PNone]"
    by (rule impI) (rule VCRConnection_init_calls)
  from a b c d e show ?thesis by simp
qed

theorem setattr_propagates_to_real_connection_witness:
  "setattr example_env (Set_attr ''timeout'' (PStr ''soon'')) example_world =
     (Inl (Foreign ''TypeError''),
      example_world\<lparr>real_connection :=
                      Some \<lparr>host = ''api.test'', port = 443, sock = PNone, rc_attrs = []\<rparr>,
                    real_calls := [R_setattr ''timeout'' (PStr ''soon'')]\<rparr>) \<and>
   setattr example_env (Set_proxied_host (Some ''example.com'')) example_world =
     (Inr (),
      example_world\<lparr>real_connection :=
                      Some \<lparr>host = ''api.test'', port = 443, sock = PNone,
                            rc_attrs = [(''_proxied_host'', PStr ''example.com'')]\<rparr>,
                    real_calls := [R_setattr ''_proxied_host'' (PStr ''example.com'')],
                    u_proxied_host := Some ''example.com''\<rparr>)"
proof -
  let ?rc = "\<lparr>host = ''api.test'', port = 443, sock = PNone, rc_attrs = []\<rparr>"
  have real: "real_connection example_world = Some ?rc"
    by (simp add: example_world_def)
  have calls: "real_calls example_world = []"
    by (simp add: example_world_def)
  have refuse: "rc_setattr example_env (attr_name (Set_attr ''timeout'' (PStr ''soon'')))
      (attr_value (Set_attr ''timeout'' (PStr ''soon''))) ?rc = (Inl (ForeignError ''TypeError''), ?rc)"
    by (simp add: example_env_def)
  have take: "rc_setattr example_env (attr_name (Set_proxied_host (Some ''example.com'')))
      (attr_value (Set_proxied_host (Some ''example.com''))) ?rc =
      (Inr (), ?rc\<lparr>rc_attrs := [(''_proxied_host'', PStr ''example.com'')]\<rparr>)"
    by (simp add: example_env_def)
  from setattr_propagates_to_real_connection
    [OF real, where E = example_env and a = "Set_attr ''timeout'' (PStr ''soon'')"
      and rc' = ?rc and e = "''TypeError''"] refuse
  have one: "setattr example_env (Set_attr ''timeout'' (PStr ''soon'')) example_world =
     (Inl (Foreign ''TypeError''),
      example_world\<lparr>real_connection := Some ?rc,
        real_calls := real_calls example_world @
          [R_setattr (attr_name (Set_attr ''timeout'' (PStr ''soon'')))
             (attr_value (Set_attr ''timeout'' (PStr ''soon'')))]\<rparr>)"
    by blast
  from setattr_propagates_to_real_connection
    [OF real, where E = example_env and a = "Set_proxied_host (Some ''example.com'')"
      and rc' = "?rc\<lparr>rc_attrs := [(''_proxied_host'', PStr ''example.com'')]\<rparr>"] take
  have two: "setattr example_env (Set_proxied_host (Some ''example.com'')) example_world =
     super_setattr example_env (Set_proxied_host (Some ''example.com''))
       (example_world\<lparr>real_connection :=
            Some (?rc\<lparr>rc_attrs := [(''_proxied_host'', PStr ''example.com'')]\<rparr>),
          real_calls := real_calls example_world @
            [R_setattr (attr_name (Set_proxied_host (Some ''example.com'')))
               (attr_value (Set_proxied_host (Some ''example.com'')))]\<rparr>)"
    by blast
  show ?thesis
    unfolding one two by (simp add: calls)
qed

end
